theory Spec2Isabelle
  imports Main "HOL-Library.Word"
begin

unbundle bit_operations_syntax

section \<open>Package pppoe: the discovery engine\<close>

subsection \<open>Data\<close>

type_synonym byte = "8 word"
type_synonym bytes = "byte list"

text \<open>\<^verbatim>\<open>net.HardwareAddr\<close> is a byte slice; the nil address is the empty list.\<close>
type_synonym HardwareAddr = "byte list"

text \<open>
  Modelled from the spec: the packet types of package pppoe (\<^verbatim>\<open>Code\<close>, \<^verbatim>\<open>Tag\<close>,
  \<^verbatim>\<open>Packet\<close>, \<^verbatim>\<open>Packet.GetTag\<close>) are declared in a file that is not part of the sources.
  The spec's data model: a discovery packet is
  \<^verbatim>\<open>{Code: enum{PADI,PADO,PADR,PADS,PADT,Session}, SessionID: uint16, Tags, Payload}\<close>
  and a tag is a TLV element \<^verbatim>\<open>{Type: uint16, Value: byte sequence}\<close>.
\<close>
datatype Code = CodePADI | CodePADO | CodePADR | CodePADS | CodePADT | CodeSession

record Tag =
  TagType :: "16 word"
  Value :: bytes

record Packet =
  Code :: Code
  SessionID :: "16 word"
  Tags :: "Tag list"
  Payload :: bytes

text \<open>
  Modelled from the spec: the tag type numbers are constants of the missing file; the
  values are the ones RFC 2516 assigns (Service-Name, AC-Cookie, Relay-Session-Id).
\<close>
definition TagTypeServiceName :: "16 word" where "TagTypeServiceName = 0x0101"
definition TagTypeACCookie :: "16 word" where "TagTypeACCookie = 0x0104"
definition TagTypeRelaySessionID :: "16 word" where "TagTypeRelaySessionID = 0x0110"

text \<open>
  Modelled from the spec: \<^verbatim>\<open>Packet.GetTag\<close> is not in the sources; the spec has the tags of
  one type "echoed verbatim", in order, duplicates kept.
\<close>
definition GetTag :: "Packet \<Rightarrow> 16 word \<Rightarrow> Tag list" where
  "GetTag pkt ty = filter (\<lambda>t. TagType t = ty) (Tags pkt)"

text \<open>
  \<^verbatim>\<open>Packet.Serialize\<close> and \<^verbatim>\<open>Packet.Parse\<close> are not in the sources either. The engine is
  modelled over any codec: \<open>None\<close> is the error return of the Go method.
\<close>
record PacketCodec =
  serialize :: "Packet \<Rightarrow> bytes option"
  parse :: "bytes \<Rightarrow> Packet option"

text \<open>The state constants: \<^verbatim>\<open>iota\<close> numbers them 0 to 3 in this order.\<close>
datatype PPPoEState = pppoeStateInitial | pppoeStateDialing | pppoeStateOpen | pppoeStateClosed

definition EtherTypePPPoESession :: "16 word" where "EtherTypePPPoESession = 0x8864"
definition EtherTypePPPoEDiscovery :: "16 word" where "EtherTypePPPoEDiscovery = 0x8863"

text \<open>Durations are nanoseconds, as \<^verbatim>\<open>time.Duration\<close>.\<close>
definition DefaultTimeout :: nat where "DefaultTimeout = 3 * 1000000000"
definition DefaultRetry :: int where "DefaultRetry = 3"

text \<open>
  The fields of \<^verbatim>\<open>PPPoE\<close> that the discovery exchange reads or writes. The logger, the
  wait group, the receive channel and the cancel function have no effect on what is
  modelled and are left out; \<^verbatim>\<open>conn\<close> is shared and is threaded separately (\<open>EtherConn\<close>).
  \<open>stateLog\<close> is a ghost field: the values written to \<^verbatim>\<open>*pppoe.state\<close>, in order.
\<close>
record PPPoE =
  serviceName :: bytes
  sessionID :: "16 word"
  tags :: "Tag list"
  acMAC :: HardwareAddr
  debug :: bool
  state :: PPPoEState
  timeout :: nat
  retry :: int
  stateLog :: "PPPoEState list"

definition StoreState :: "PPPoE \<Rightarrow> PPPoEState \<Rightarrow> PPPoE" where
  "StoreState p v = p\<lparr>state := v, stateLog := stateLog p @ [v]\<rparr>"

subsection \<open>The L2 transport\<close>

text \<open>
  \<^verbatim>\<open>etherconn.EtherConn\<close> is an external collaborator. It is modelled as a script: the
  outcomes of the coming writes (\<open>True\<close>: the write fails; an exhausted script accepts)
  and of the coming reads (an exhausted script times out). It keeps two logs: \<open>writes\<close>,
  every frame handed to \<^verbatim>\<open>WritePktTo\<close> with whether it was accepted, and \<open>calls\<close>, every
  call of \<^verbatim>\<open>WritePktTo\<close>, \<^verbatim>\<open>SetReadDeadline\<close> and \<^verbatim>\<open>ReadPkt\<close> in the order made.
  \<^verbatim>\<open>SetReadDeadline\<close> is logged with the duration from the time of the call to the
  deadline; that a read returns no later than the deadline set for it is the
  transport's contract (time itself is not modelled).
\<close>
datatype rx = RxPkt bytes HardwareAddr | RxTimeout | RxFail

record frame =
  fbytes :: bytes
  fethertype :: "16 word"
  fdst :: HardwareAddr

datatype call = CallWritePktTo frame bool | CallSetReadDeadline nat | CallReadPkt rx

record EtherConn =
  writeScript :: "bool list"
  readScript :: "rx list"
  writes :: "(frame \<times> bool) list"
  calls :: "call list"

definition BroadCastMAC :: HardwareAddr where
  "BroadCastMAC = replicate 6 0xFF"

definition WritePktTo :: "EtherConn \<Rightarrow> bytes \<Rightarrow> 16 word \<Rightarrow> HardwareAddr \<Rightarrow> bool \<times> EtherConn" where
  "WritePktTo c b ety dst =
     (let f = \<lparr>fbytes = b, fethertype = ety, fdst = dst\<rparr> in
      case writeScript c of
        [] \<Rightarrow> (True, c\<lparr>writes := writes c @ [(f, True)],
                        calls := calls c @ [CallWritePktTo f True]\<rparr>)
      | fails # ws \<Rightarrow> (\<not> fails, c\<lparr>writeScript := ws, writes := writes c @ [(f, \<not> fails)],
                                     calls := calls c @ [CallWritePktTo f (\<not> fails)]\<rparr>))"

definition SetReadDeadline :: "EtherConn \<Rightarrow> nat \<Rightarrow> EtherConn" where
  "SetReadDeadline c d = c\<lparr>calls := calls c @ [CallSetReadDeadline d]\<rparr>"

definition ReadPkt :: "EtherConn \<Rightarrow> rx \<times> EtherConn" where
  "ReadPkt c =
     (case readScript c of
        [] \<Rightarrow> (RxTimeout, c\<lparr>calls := calls c @ [CallReadPkt RxTimeout]\<rparr>)
      | r # rs \<Rightarrow> (r, c\<lparr>readScript := rs, calls := calls c @ [CallReadPkt r]\<rparr>))"

text \<open>
  The outcomes of the next \<open>n\<close> reads, and the calls of one attempt of the retry loop
  that sends the frame \<open>f\<close>, sets the read deadline \<open>d\<close> and reads \<open>r\<close>.
\<close>
definition next_reads :: "nat \<Rightarrow> EtherConn \<Rightarrow> rx list" where
  "next_reads n c = take n (readScript c @ replicate n RxTimeout)"

definition attempt_calls :: "frame \<Rightarrow> nat \<Rightarrow> rx \<Rightarrow> call list" where
  "attempt_calls f d r = [CallWritePktTo f True, CallSetReadDeadline d, CallReadPkt r]"

subsection \<open>Construction\<close>

text \<open>A nil slice is \<open>None\<close>; \<^verbatim>\<open>WithTags\<close> tells it from an empty one.\<close>
datatype Modifier = WithDebug bool | WithTags "Tag list option"

fun applyModifier :: "Modifier \<Rightarrow> PPPoE \<Rightarrow> PPPoE" where
  "applyModifier (WithDebug d) p = p\<lparr>debug := d\<rparr>"
| "applyModifier (WithTags None) p = p"
| "applyModifier (WithTags (Some t)) p = p\<lparr>tags := t\<rparr>"

definition NewPPPoE :: "Modifier list \<Rightarrow> PPPoE" where
  "NewPPPoE options =
     (let r = \<lparr>serviceName = [], sessionID = 0, tags = [], acMAC = [], debug = False,
               state = pppoeStateInitial, timeout = 0, retry = 0, stateLog = []\<rparr>;
          r = r\<lparr>timeout := DefaultTimeout\<rparr>;
          r = r\<lparr>retry := DefaultRetry\<rparr>;
          r = r\<lparr>tags := [\<lparr>TagType = TagTypeServiceName, Value = serviceName r\<rparr>]\<rparr>;
          r = fold applyModifier options r
      in r\<lparr>state := pppoeStateInitial, stateLog := [pppoeStateInitial]\<rparr>)"

subsection \<open>Building packets\<close>

definition buildPADT :: "PPPoE \<Rightarrow> Packet" where
  "buildPADT p = \<lparr>Code = CodePADT, SessionID = sessionID p, Tags = [], Payload = []\<rparr>"

definition buildPADI :: "PPPoE \<Rightarrow> Packet" where
  "buildPADI p = \<lparr>Code = CodePADI, SessionID = 0, Tags = tags p, Payload = []\<rparr>"

definition buildPADRWithPADO :: "PPPoE \<Rightarrow> Packet \<Rightarrow> Packet" where
  "buildPADRWithPADO p pado =
     \<lparr>Code = CodePADR, SessionID = 0,
      Tags = [\<lparr>TagType = TagTypeServiceName, Value = serviceName p\<rparr>]
             @ filter (\<lambda>t. TagType t \<noteq> TagTypeServiceName) (tags p)
             @ GetTag pado TagTypeACCookie
             @ GetTag pado TagTypeRelaySessionID,
      Payload = []\<rparr>"

subsection \<open>Errors\<close>

text \<open>
  One constructor for each error the engine returns, named after its message.
  \<open>PanicNilEndpoint\<close> is the nil dereference of \<^verbatim>\<open>l2ep.HwAddr\<close> in \<^verbatim>\<open>getResponse\<close>,
  reached only if the codec parses the empty buffer of a timed-out read.
\<close>
datatype error =
    ErrSerialize
  | ErrWrite
  | ErrFailedToRecvResponse
  | ErrFailedToRecvExpectedResponse Code
  | ErrACRejected
  | ErrNotOpen
  | ErrFailedToSerialize
  | ErrFailedToSend
  | PanicNilEndpoint

subsection \<open>WriteTo and Close\<close>

definition WriteTo :: "PacketCodec \<Rightarrow> PPPoE \<Rightarrow> bytes \<Rightarrow> EtherConn \<Rightarrow> (nat \<times> error option) \<times> EtherConn" where
  "WriteTo cdc p payload c =
     (if state p \<noteq> pppoeStateOpen then ((0, Some ErrNotOpen), c)
      else
        let pkt = \<lparr>Code = CodeSession, SessionID = sessionID p, Tags = [], Payload = payload\<rparr> in
        case serialize cdc pkt of
          None \<Rightarrow> ((0, Some ErrFailedToSerialize), c)
        | Some pktbytes \<Rightarrow>
            (case WritePktTo c pktbytes EtherTypePPPoESession (acMAC p) of
               (False, c1) \<Rightarrow> ((0, Some ErrFailedToSend), c1)
             | (True, c1) \<Rightarrow> ((length payload, None), c1)))"

text \<open>
  \<^verbatim>\<open>Close\<close> returns the error, the instance as it leaves it and the transport. The
  error of \<^verbatim>\<open>WritePktTo\<close> goes to the logger only.
\<close>
definition Close :: "PacketCodec \<Rightarrow> PPPoE \<Rightarrow> EtherConn \<Rightarrow> error option \<times> PPPoE \<times> EtherConn" where
  "Close cdc p c =
     (if state p = pppoeStateOpen then
        (case serialize cdc (buildPADT p) of
           None \<Rightarrow> (Some ErrSerialize, p, c)
         | Some pktbytes \<Rightarrow>
             (case WritePktTo c pktbytes EtherTypePPPoEDiscovery (acMAC p) of
                (ok, c1) \<Rightarrow> (None, p, c1)))
      else (None, p, c))"

text \<open>Whether the transport accepts the next write.\<close>
definition accepts :: "EtherConn \<Rightarrow> bool" where
  "accepts c = (case writeScript c of [] \<Rightarrow> True | fails # ws \<Rightarrow> \<not> fails)"

subsection \<open>The discovery exchange\<close>

text \<open>
  The loop of \<^verbatim>\<open>getResponse\<close>; the last numeric argument is the number of iterations
  left, \<^verbatim>\<open>retry - i\<close>.
\<close>
primrec getResponse_loop ::
  "PacketCodec \<Rightarrow> PPPoE \<Rightarrow> Code \<Rightarrow> HardwareAddr \<Rightarrow> bytes \<Rightarrow> nat \<Rightarrow> EtherConn
     \<Rightarrow> (error + Packet \<times> HardwareAddr) \<times> EtherConn" where
  "getResponse_loop cdc p code dst pktbytes 0 c = (Inl (ErrFailedToRecvExpectedResponse code), c)"
| "getResponse_loop cdc p code dst pktbytes (Suc n) c =
     (case WritePktTo c pktbytes EtherTypePPPoEDiscovery dst of
        (False, c1) \<Rightarrow> (Inl ErrWrite, c1)
      | (True, c1) \<Rightarrow>
          (case ReadPkt (SetReadDeadline c1 (timeout p)) of
             (RxFail, c2) \<Rightarrow> (Inl ErrFailedToRecvResponse, c2)
           | (RxTimeout, c2) \<Rightarrow>
               (case parse cdc [] of
                  None \<Rightarrow> getResponse_loop cdc p code dst pktbytes n c2
                | Some resp \<Rightarrow>
                    if Code resp = code then (Inl PanicNilEndpoint, c2)
                    else getResponse_loop cdc p code dst pktbytes n c2)
           | (RxPkt rcvpktbuf hw, c2) \<Rightarrow>
               (case parse cdc rcvpktbuf of
                  None \<Rightarrow> getResponse_loop cdc p code dst pktbytes n c2
                | Some resp \<Rightarrow>
                    if Code resp = code then (Inr (resp, hw), c2)
                    else getResponse_loop cdc p code dst pktbytes n c2)))"

definition getResponse ::
  "PacketCodec \<Rightarrow> PPPoE \<Rightarrow> Packet \<Rightarrow> Code \<Rightarrow> HardwareAddr \<Rightarrow> EtherConn
     \<Rightarrow> (error + Packet \<times> HardwareAddr) \<times> EtherConn" where
  "getResponse cdc p req code dst c =
     (case serialize cdc req of
        None \<Rightarrow> (Inl ErrSerialize, c)
      | Some pktbytes \<Rightarrow> getResponse_loop cdc p code dst pktbytes (nat (retry p)) c)"

text \<open>
  The body of \<^verbatim>\<open>Dial\<close> between the first store and the deferred function. The
  assignment \<^verbatim>\<open>pado, pppoe.acMAC, err = ...\<close> writes \<^verbatim>\<open>acMAC\<close> on failure too (nil).
\<close>
definition Dial_body :: "PacketCodec \<Rightarrow> PPPoE \<Rightarrow> EtherConn \<Rightarrow> error option \<times> PPPoE \<times> EtherConn" where
  "Dial_body cdc p c =
     (case getResponse cdc p (buildPADI p) CodePADO BroadCastMAC c of
        (Inl e, c1) \<Rightarrow> (Some e, p\<lparr>acMAC := []\<rparr>, c1)
      | (Inr (pado, hw), c1) \<Rightarrow>
          (let p1 = p\<lparr>acMAC := hw\<rparr> in
           case getResponse cdc p1 (buildPADRWithPADO p1 pado) CodePADS (acMAC p1) c1 of
             (Inl e, c2) \<Rightarrow> (Some e, p1, c2)
           | (Inr (pads, hw2), c2) \<Rightarrow>
               if SessionID pads = 0 then (Some ErrACRejected, p1, c2)
               else (None, StoreState (p1\<lparr>sessionID := SessionID pads\<rparr>) pppoeStateOpen, c2)))"

definition Dial_deferred :: "PPPoE \<Rightarrow> PPPoE" where
  "Dial_deferred p = (if state p \<noteq> pppoeStateOpen then StoreState p pppoeStateClosed else p)"

definition Dial :: "PacketCodec \<Rightarrow> PPPoE \<Rightarrow> EtherConn \<Rightarrow> error option \<times> PPPoE \<times> EtherConn" where
  "Dial cdc p c =
     (case Dial_body cdc (StoreState p pppoeStateDialing) c of
        (err, p1, c1) \<Rightarrow> (err, Dial_deferred p1, c1))"

text \<open>
  What one operation of the instance's user does to the instance and the transport:
  the state sequence of the claims about \<^verbatim>\<open>Dial\<close> and \<^verbatim>\<open>Close\<close> is the \<open>stateLog\<close>
  after a run of such operations.
\<close>
datatype op = OpDial | OpClose

fun run_op :: "PacketCodec \<Rightarrow> op \<Rightarrow> PPPoE \<times> EtherConn \<Rightarrow> PPPoE \<times> EtherConn" where
  "run_op cdc OpDial (p, c) = (case Dial cdc p c of (err, p1, c1) \<Rightarrow> (p1, c1))"
| "run_op cdc OpClose (p, c) = (case Close cdc p c of (err, p1, c1) \<Rightarrow> (p1, c1))"

definition run_ops :: "PacketCodec \<Rightarrow> op list \<Rightarrow> PPPoE \<times> EtherConn \<Rightarrow> PPPoE \<times> EtherConn" where
  "run_ops cdc ops pc = fold (run_op cdc) ops pc"

text \<open>Whether some \<^verbatim>\<open>Dial\<close> of the run starts on an instance that is \<open>Open\<close>.\<close>
fun redials :: "PacketCodec \<Rightarrow> op list \<Rightarrow> PPPoE \<times> EtherConn \<Rightarrow> bool" where
  "redials cdc [] pc = False"
| "redials cdc (x # ops) pc =
     ((x = OpDial \<and> state (fst pc) = pppoeStateOpen) \<or> redials cdc ops (run_op cdc x pc))"

text \<open>Whether \<open>a\<close> is immediately followed by \<open>b\<close> somewhere in a sequence.\<close>
fun followed_by :: "'a \<Rightarrow> 'a \<Rightarrow> 'a list \<Rightarrow> bool" where
  "followed_by a b (x # y # xs) = ((x = a \<and> y = b) \<or> followed_by a b (y # xs))"
| "followed_by a b xs = False"

subsection \<open>A wire codec\<close>

definition PutUint16 :: "16 word \<Rightarrow> bytes" where
  "PutUint16 v = [ucast (drop_bit 8 v), ucast v]"

text \<open>\<^verbatim>\<open>binary.BigEndian.Uint16\<close>; it panics on fewer than two bytes.\<close>
fun Uint16 :: "bytes \<Rightarrow> 16 word option" where
  "Uint16 (a # b # rest) = Some (push_bit 8 (ucast a) OR ucast b)"
| "Uint16 rest = None"

text \<open>
  Modelled from the spec: \<^verbatim>\<open>Packet.Serialize\<close> and \<^verbatim>\<open>Packet.Parse\<close> are not in the sources.
  The spec's wire format is code, session id and length in network order, then each tag
  as type, length and value; parsing fails on an input shorter than the fixed header and
  on a truncated tag. The header has the one-byte version and type field of RFC 2516 in
  front, as the offsets of \<^verbatim>\<open>ReadFrom\<close> show (code at 1, session id at 2, payload at 6), and
  the code bytes are the RFC's. A session packet carries its payload and no tags.
  The theorems below hold for every codec; this one instantiates them.
\<close>
fun Code_byte :: "Code \<Rightarrow> byte" where
  "Code_byte CodePADI = 0x09"
| "Code_byte CodePADO = 0x07"
| "Code_byte CodePADR = 0x19"
| "Code_byte CodePADS = 0x65"
| "Code_byte CodePADT = 0xa7"
| "Code_byte CodeSession = 0x00"

definition byte_Code :: "byte \<Rightarrow> Code option" where
  "byte_Code b =
     (if b = 0x09 then Some CodePADI else if b = 0x07 then Some CodePADO
      else if b = 0x19 then Some CodePADR else if b = 0x65 then Some CodePADS
      else if b = 0xa7 then Some CodePADT else if b = 0x00 then Some CodeSession
      else None)"

definition put_tag :: "Tag \<Rightarrow> bytes" where
  "put_tag t = PutUint16 (TagType t) @ PutUint16 (word_of_nat (length (Value t))) @ Value t"

fun parse_tags :: "nat \<Rightarrow> bytes \<Rightarrow> Tag list option" where
  "parse_tags fuel [] = Some []"
| "parse_tags 0 (x # xs) = None"
| "parse_tags (Suc fuel) (a # b # c # d # rest) =
     (let n = unat (push_bit 8 (ucast c) OR ucast d :: 16 word) in
      if length rest < n then None
      else case parse_tags fuel (drop n rest) of
             None \<Rightarrow> None
           | Some ts \<Rightarrow>
               Some (\<lparr>TagType = push_bit 8 (ucast a) OR ucast b, Value = take n rest\<rparr> # ts))"
| "parse_tags (Suc fuel) xs = None"

definition wire_serialize :: "Packet \<Rightarrow> bytes option" where
  "wire_serialize pkt =
     (let body = concat (map put_tag (Tags pkt)) @ Payload pkt in
      if length body < 65536
      then Some ([0x11, Code_byte (Code pkt)] @ PutUint16 (SessionID pkt)
                 @ PutUint16 (word_of_nat (length body)) @ body)
      else None)"

fun wire_parse :: "bytes \<Rightarrow> Packet option" where
  "wire_parse (vt # cb # s1 # s2 # l1 # l2 # body) =
     (case byte_Code cb of
        None \<Rightarrow> None
      | Some code \<Rightarrow>
          if code = CodeSession
          then Some \<lparr>Code = code, SessionID = push_bit 8 (ucast s1) OR ucast s2,
                     Tags = [], Payload = body\<rparr>
          else (case parse_tags (length body) body of
                  None \<Rightarrow> None
                | Some ts \<Rightarrow>
                    Some \<lparr>Code = code, SessionID = push_bit 8 (ucast s1) OR ucast s2,
                          Tags = ts, Payload = []\<rparr>))"
| "wire_parse short = None"

definition wire :: PacketCodec where
  "wire = \<lparr>serialize = wire_serialize, parse = wire_parse\<rparr>"

subsection \<open>Responses that do not answer\<close>

text \<open>
  A read outcome that is no response of the awaited code: a timeout or a frame that
  does not parse or has another code (a timed-out read hands the empty buffer to
  \<^verbatim>\<open>Parse\<close>). A hard read error is not one of them.
\<close>
fun no_match :: "PacketCodec \<Rightarrow> Code \<Rightarrow> rx \<Rightarrow> bool" where
  "no_match cdc code (RxPkt b hw) =
     (case parse cdc b of None \<Rightarrow> True | Some resp \<Rightarrow> Code resp \<noteq> code)"
| "no_match cdc code RxTimeout =
     (case parse cdc [] of None \<Rightarrow> True | Some resp \<Rightarrow> Code resp \<noteq> code)"
| "no_match cdc code RxFail = False"

subsection \<open>Example transports\<close>

text \<open>An access concentrator at 02:00:00:00:00:01 that offers and then refuses.\<close>
definition conn_rejecting :: EtherConn where
  "conn_rejecting =
     \<lparr>writeScript = [],
      readScript = [RxPkt [0x11, 0x07, 0, 0, 0, 0] [2, 0, 0, 0, 0, 1],
                    RxPkt [0x11, 0x65, 0, 0, 0, 0] [2, 0, 0, 0, 0, 1]],
      writes = [], calls = []\<rparr>"

text \<open>The same concentrator confirming session 0x1234.\<close>
definition conn_accepting :: EtherConn where
  "conn_accepting =
     \<lparr>writeScript = [],
      readScript = [RxPkt [0x11, 0x07, 0, 0, 0, 0] [2, 0, 0, 0, 0, 1],
                    RxPkt [0x11, 0x65, 0x12, 0x34, 0, 0] [2, 0, 0, 0, 0, 1]],
      writes = [], calls = []\<rparr>"

text \<open>A transport on which nothing ever arrives.\<close>
definition conn_silent :: EtherConn where
  "conn_silent = \<lparr>writeScript = [], readScript = [], writes = [], calls = []\<rparr>"

section \<open>Package lcp: PPP frames and the multiplexer\<close>

subsection \<open>Frames\<close>

text \<open>
  Modelled from the spec: the protocol numbers are constants of a file that is not in the
  sources. The spec names LCP as 0xC021; the others are the numbers assigned to PAP, CHAP,
  IPCP, IPv6CP, IPv4 and IPv6 over PPP. \<^verbatim>\<open>CodeProtocolReject\<close> is LCP code 8.
\<close>
definition ProtoLCP :: "16 word" where "ProtoLCP = 0xC021"
definition ProtoPAP :: "16 word" where "ProtoPAP = 0xC023"
definition ProtoCHAP :: "16 word" where "ProtoCHAP = 0xC223"
definition ProtoIPCP :: "16 word" where "ProtoIPCP = 0x8021"
definition ProtoIPv6CP :: "16 word" where "ProtoIPv6CP = 0x8057"
definition ProtoIPv4 :: "16 word" where "ProtoIPv4 = 0x0021"
definition ProtoIPv6 :: "16 word" where "ProtoIPv6 = 0x0057"
definition CodeProtocolReject :: "8 word" where "CodeProtocolReject = 8"

text \<open>
  Modelled from the spec: \<^verbatim>\<open>lcp.Pkt\<close>, \<^verbatim>\<open>NewPkt\<close> and \<^verbatim>\<open>NewStaticSerializer\<close> are not in the
  sources. A control packet has the fields \<^verbatim>\<open>sendProtocolRejct\<close> assigns; a static
  serializer yields the bytes it was made from. \<^verbatim>\<open>Pkt.Serialize\<close> is a parameter
  (\<open>None\<close>: it returns an error).
\<close>
record Pkt =
  PktProto :: "16 word"
  PktCode :: "8 word"
  ID :: "8 word"
  PktPayload :: bytes

definition NewPkt :: "16 word \<Rightarrow> Pkt" where
  "NewPkt p = \<lparr>PktProto = p, PktCode = 0, ID = 0, PktPayload = []\<rparr>"

datatype Serializer = StaticSerializer bytes | PktSerializer Pkt

fun Serializer_Serialize :: "(Pkt \<Rightarrow> bytes option) \<Rightarrow> Serializer \<Rightarrow> bytes option" where
  "Serializer_Serialize ps (StaticSerializer b) = Some b"
| "Serializer_Serialize ps (PktSerializer k) = ps k"

record PPPPacket =
  Proto :: "16 word"
  PPPPayload :: Serializer

definition NewPPPPkt :: "Serializer \<Rightarrow> 16 word \<Rightarrow> PPPPacket" where
  "NewPPPPkt data proto = \<lparr>Proto = proto, PPPPayload = data\<rparr>"

definition PPPPacket_Serialize :: "(Pkt \<Rightarrow> bytes option) \<Rightarrow> PPPPacket \<Rightarrow> bytes option" where
  "PPPPacket_Serialize ps pppPkt =
     (case Serializer_Serialize ps (PPPPayload pppPkt) of
        None \<Rightarrow> None
      | Some body \<Rightarrow> Some (PutUint16 (Proto pppPkt) @ body))"

datatype decode_error = InvalidPPPPacketLength nat

definition PPPPacket_Parse :: "bytes \<Rightarrow> decode_error + PPPPacket" where
  "PPPPacket_Parse buf =
     (if length buf \<le> 2 then Inl (InvalidPPPPacketLength (length buf))
      else case Uint16 (take 2 buf) of
             Some pn \<Rightarrow> Inr \<lparr>Proto = pn, PPPPayload = StaticSerializer (drop 2 buf)\<rparr>
           | None \<Rightarrow> Inl (InvalidPPPPacketLength (length buf)))"

text \<open>
  Modelled from the spec: an instance of \<^verbatim>\<open>Pkt.Serialize\<close> for concrete inputs (code,
  identifier, two-byte length, data, as RFC 1661 lays an LCP packet out).
\<close>
definition lcp_wire :: "Pkt \<Rightarrow> bytes option" where
  "lcp_wire k =
     (if length (PktPayload k) + 4 < 65536
      then Some ([PktCode k, ID k] @ PutUint16 (word_of_nat (length (PktPayload k) + 4))
                 @ PktPayload k)
      else None)"

subsection \<open>The multiplexer\<close>

text \<open>
  A channel is a bounded FIFO that may be closed. Channels are shared between the
  multiplexer and its registrants, so they live in a store (\<open>chans\<close>) and the registry
  maps a protocol number to a store address; an address with no channel is the nil
  channel. The model is sequential: a send that finds its channel full, or nil, has
  nobody to wait for and is \<open>Blocked\<close>.
\<close>
record chan =
  cbuf :: "bytes list"
  closed :: bool

definition relayChanDepth :: nat where "relayChanDepth = 128"
definition sendCHanDepth :: nat where "sendCHanDepth = 128"

definition make_chan :: chan where
  "make_chan = \<lparr>cbuf = [], closed = False\<rparr>"

datatype fault =
    Blocked
  | PanicCloseOfNilChannel
  | PanicCloseOfClosedChannel
  | PanicSendOnClosedChannel
  | PanicSliceBounds

definition chan_send :: "nat \<Rightarrow> chan \<Rightarrow> bytes \<Rightarrow> fault + chan" where
  "chan_send depth ch v =
     (if closed ch then Inl PanicSendOnClosedChannel
      else if length (cbuf ch) < depth then Inr (ch\<lparr>cbuf := cbuf ch @ [v]\<rparr>)
      else Inl Blocked)"

record PPP =
  relayChanList :: "16 word \<rightharpoonup> nat"
  chans :: "nat \<rightharpoonup> chan"
  nextChan :: nat
  sendChan :: chan
  reqID :: "8 word"

definition NewPPP :: PPP where
  "NewPPP = \<lparr>relayChanList = Map.empty, chans = Map.empty, nextChan = 0,
             sendChan = make_chan, reqID = 0\<rparr>"

text \<open>\<^verbatim>\<open>Register\<close> returns the shared send channel and the address of the new channel.\<close>
definition Register :: "16 word \<Rightarrow> PPP \<Rightarrow> nat \<times> PPP" where
  "Register p s =
     (let ch = nextChan s in
      (ch, s\<lparr>chans := (chans s)(ch \<mapsto> make_chan),
             relayChanList := (relayChanList s)(p \<mapsto> ch),
             nextChan := Suc ch\<rparr>))"

definition close_chan :: "chan option \<Rightarrow> fault + chan" where
  "close_chan c =
     (case c of
        None \<Rightarrow> Inl PanicCloseOfNilChannel
      | Some ch \<Rightarrow> if closed ch then Inl PanicCloseOfClosedChannel else Inr (ch\<lparr>closed := True\<rparr>))"

text \<open>
  \<^verbatim>\<open>close(ppp.relayChanList[p])\<close>: indexing a Go map at a missing key gives the zero
  value, for a channel type nil. A panic leaves the lock held; the lock is not modelled.
\<close>
definition UnRegister :: "16 word \<Rightarrow> PPP \<Rightarrow> fault + PPP" where
  "UnRegister p s =
     (case relayChanList s p of
        None \<Rightarrow> (case close_chan None of Inl f \<Rightarrow> Inl f | Inr ch \<Rightarrow> Inr s)
      | Some a \<Rightarrow>
          (case close_chan (chans s a) of
             Inl f \<Rightarrow> Inl f
           | Inr ch \<Rightarrow> Inr (s\<lparr>chans := (chans s)(a \<mapsto> ch),
                               relayChanList := (relayChanList s)(p := None)\<rparr>)))"

definition wellKnown :: "16 word list" where
  "wellKnown = [ProtoCHAP, ProtoIPCP, ProtoLCP, ProtoPAP, ProtoIPv6CP, ProtoIPv4, ProtoIPv6]"

text \<open>
  \<^verbatim>\<open>sendProtocolRejct\<close>. The reslice \<^verbatim>\<open>b[:2]\<close> of a shorter slice is out of range (unless
  its capacity allows it); \<^verbatim>\<open>relay\<close> never passes one.
\<close>
definition sendProtocolRejct :: "(Pkt \<Rightarrow> bytes option) \<Rightarrow> bytes \<Rightarrow> PPP \<Rightarrow> fault + PPP" where
  "sendProtocolRejct ps b s =
     (let proto = take 2 b in
      case Uint16 proto of
        None \<Rightarrow> Inl PanicSliceBounds
      | Some pn \<Rightarrow>
          if pn \<in> set wellKnown then Inr s
          else
            let pkt = NewPkt ProtoLCP;
                pkt = pkt\<lparr>PktCode := CodeProtocolReject\<rparr>;
                s1 = s\<lparr>reqID := reqID s + 1\<rparr>;
                pkt = pkt\<lparr>ID := reqID s1\<rparr>;
                pkt = pkt\<lparr>PktPayload := proto @ b\<rparr>
            in (case PPPPacket_Serialize ps (NewPPPPkt (PktSerializer pkt) ProtoLCP) of
                  None \<Rightarrow> Inr s1
                | Some pktbytes \<Rightarrow>
                    (case chan_send sendCHanDepth (sendChan s1) pktbytes of
                       Inl f \<Rightarrow> Inl f
                     | Inr ch \<Rightarrow> Inr (s1\<lparr>sendChan := ch\<rparr>))))"

text \<open>
  \<^verbatim>\<open>relay\<close>: the delivery, then \<^verbatim>\<open>go ppp.sendProtocolRejct(buf)\<close>, run here in sequence.
\<close>
definition relay :: "(Pkt \<Rightarrow> bytes option) \<Rightarrow> bytes \<Rightarrow> PPP \<Rightarrow> fault + PPP" where
  "relay ps buf s =
     (if length buf \<le> 2 then Inr s
      else case Uint16 (take 2 buf) of
        None \<Rightarrow> Inl PanicSliceBounds
      | Some pn \<Rightarrow>
          (case relayChanList s pn of
             None \<Rightarrow> sendProtocolRejct ps buf s
           | Some a \<Rightarrow>
               (case chans s a of
                  None \<Rightarrow> Inl Blocked
                | Some ch \<Rightarrow>
                    (case chan_send relayChanDepth ch (drop 2 buf) of
                       Inl f \<Rightarrow> Inl f
                     | Inr ch' \<Rightarrow> sendProtocolRejct ps buf (s\<lparr>chans := (chans s)(a \<mapsto> ch')\<rparr>)))))"

text \<open>Whether the delivery of \<^verbatim>\<open>relay\<close> to the channel registered for \<open>pn\<close> returns.\<close>
definition deliverable :: "PPP \<Rightarrow> 16 word \<Rightarrow> bool" where
  "deliverable s pn =
     (case relayChanList s pn of
        None \<Rightarrow> True
      | Some a \<Rightarrow>
          (case chans s a of
             None \<Rightarrow> False
           | Some ch \<Rightarrow> \<not> closed ch \<and> length (cbuf ch) < relayChanDepth))"

subsection \<open>Example instances\<close>

text \<open>The instance a successful \<^verbatim>\<open>Dial\<close> leaves, and a transport that refuses the next write.\<close>
definition opened :: PPPoE where
  "opened = fst (snd (Dial wire (NewPPPoE []) conn_accepting))"

definition conn_failing :: EtherConn where
  "conn_failing = \<lparr>writeScript = [True], readScript = [], writes = [], calls = []\<rparr>"

text \<open>A concentrator that offers and then falls silent.\<close>
definition conn_offer_only :: EtherConn where
  "conn_offer_only =
     \<lparr>writeScript = [],
      readScript = [RxPkt [0x11, 0x07, 0, 0, 0, 0] [2, 0, 0, 0, 0, 1]],
      writes = [], calls = []\<rparr>"

text \<open>A transport on which the offer is there only at the fourth read.\<close>
definition conn_late_offer :: EtherConn where
  "conn_late_offer =
     \<lparr>writeScript = [],
      readScript = [RxTimeout, RxTimeout, RxTimeout,
                    RxPkt [0x11, 0x07, 0, 0, 0, 0] [2, 0, 0, 0, 0, 1]],
      writes = [], calls = []\<rparr>"

text \<open>A multiplexer with IPv4 registered.\<close>
definition ppp_ipv4 :: PPP where
  "ppp_ipv4 = snd (Register ProtoIPv4 NewPPP)"

section \<open>Evaluation\<close>

lemmas getResponse_loop_numeral =
  getResponse_loop.simps(2) [of _ _ _ _ _ "pred_numeral k", folded numeral_eq_Suc] for k

text \<open>The equations that evaluate a run of the engine at a concrete input.\<close>
lemmas ev = getResponse_def wire_def wire_serialize_def buildPADI_def buildPADRWithPADO_def
  buildPADT_def NewPPPoE_def StoreState_def DefaultRetry_def DefaultTimeout_def
  TagTypeServiceName_def TagTypeACCookie_def TagTypeRelaySessionID_def GetTag_def
  put_tag_def PutUint16_def WritePktTo_def SetReadDeadline_def ReadPkt_def
  BroadCastMAC_def byte_Code_def Let_def getResponse_loop_numeral

section \<open>The discovery engine: properties\<close>

text \<open>
  Claim C1. A run of \<^verbatim>\<open>Dial\<close> in which the PADI is answered by a PADO and the PADR by a
  PADS whose session id is 0 returns the rejection error, and the state field ends in
  \<open>Closed\<close>, not \<open>Open\<close>: the stores of the run are \<open>Dialing\<close> and \<open>Closed\<close>.
\<close>
theorem Dial_rejected:
  assumes "getResponse cdc (StoreState p pppoeStateDialing) (buildPADI (StoreState p pppoeStateDialing))
             CodePADO BroadCastMAC c = (Inr (pado, hw), c1)"
    and "getResponse cdc (StoreState p pppoeStateDialing\<lparr>acMAC := hw\<rparr>)
             (buildPADRWithPADO (StoreState p pppoeStateDialing\<lparr>acMAC := hw\<rparr>) pado)
             CodePADS hw c1 = (Inr (pads, hw2), c2)"
    and "SessionID pads = 0"
  shows "fst (Dial cdc p c) = Some ErrACRejected
       \<and> state (fst (snd (Dial cdc p c))) = pppoeStateClosed
       \<and> state (fst (snd (Dial cdc p c))) \<noteq> pppoeStateOpen
       \<and> stateLog (fst (snd (Dial cdc p c))) = stateLog p @ [pppoeStateDialing, pppoeStateClosed]"
  using assms by (simp add: Dial_def Dial_body_def Dial_deferred_def StoreState_def)

text \<open>The run against the refusing concentrator.\<close>
theorem Dial_rejected_witness:
  "fst (Dial wire (NewPPPoE []) conn_rejecting) = Some ErrACRejected
   \<and> state (fst (snd (Dial wire (NewPPPoE []) conn_rejecting))) = pppoeStateClosed"
proof -
  let ?p = "StoreState (NewPPPoE []) pppoeStateDialing"
  let ?hw = "[2, 0, 0, 0, 0, 1] :: HardwareAddr"
  let ?pado = "\<lparr>Code = CodePADO, SessionID = 0, Tags = [], Payload = []\<rparr>"
  let ?pads = "\<lparr>Code = CodePADS, SessionID = 0, Tags = [], Payload = []\<rparr>"
  let ?r1 = "getResponse wire ?p (buildPADI ?p) CodePADO BroadCastMAC conn_rejecting"
  let ?r2 = "getResponse wire (?p\<lparr>acMAC := ?hw\<rparr>) (buildPADRWithPADO (?p\<lparr>acMAC := ?hw\<rparr>) ?pado)
               CodePADS ?hw (snd ?r1)"
  have h1: "?r1 = (Inr (?pado, ?hw), snd ?r1)" by (simp add: ev conn_rejecting_def conn_accepting_def conn_silent_def accepts_def)
  have h2: "?r2 = (Inr (?pads, ?hw), snd ?r2)" by (simp add: ev conn_rejecting_def conn_accepting_def conn_silent_def accepts_def)
  have h3: "SessionID ?pads = 0" by simp
  from Dial_rejected [OF h1 h2 h3] show ?thesis by simp
qed

text \<open>
  Claim C2. A run of \<^verbatim>\<open>Dial\<close> in which a PADO is followed by a PADS with a nonzero
  session id returns no error and leaves the state \<open>Open\<close>, the session id of the PADS
  and the sender of the PADO recorded. Every \<^verbatim>\<open>WriteTo\<close> on the instance it leaves wraps
  the payload in a packet of code \<open>Session\<close> with that session id and hands it to the
  transport for the concentrator's address with the session ether type; it returns the
  length of the payload when the transport accepts the frame (and an error when the
  packet does not serialize or the transport refuses).
\<close>
theorem Dial_open_WriteTo:
  assumes "getResponse cdc (StoreState p pppoeStateDialing) (buildPADI (StoreState p pppoeStateDialing))
             CodePADO BroadCastMAC c = (Inr (pado, hw), c1)"
    and "getResponse cdc (StoreState p pppoeStateDialing\<lparr>acMAC := hw\<rparr>)
             (buildPADRWithPADO (StoreState p pppoeStateDialing\<lparr>acMAC := hw\<rparr>) pado)
             CodePADS hw c1 = (Inr (pads, hw2), c2)"
    and "SessionID pads \<noteq> 0"
    and "p' = fst (snd (Dial cdc p c))"
    and "pkt = \<lparr>Code = CodeSession, SessionID = SessionID pads, Tags = [], Payload = payload\<rparr>"
  shows "fst (Dial cdc p c) = None
       \<and> state p' = pppoeStateOpen
       \<and> stateLog p' = stateLog p @ [pppoeStateDialing, pppoeStateOpen]
       \<and> sessionID p' = SessionID pads
       \<and> acMAC p' = hw
       \<and> (serialize cdc pkt = None \<longrightarrow>
            WriteTo cdc p' payload c' = ((0, Some ErrFailedToSerialize), c'))
       \<and> (\<forall>b. serialize cdc pkt = Some b \<longrightarrow>
            writes (snd (WriteTo cdc p' payload c'))
              = writes c' @ [(\<lparr>fbytes = b, fethertype = EtherTypePPPoESession, fdst = hw\<rparr>, accepts c')]
            \<and> fst (WriteTo cdc p' payload c')
              = (if accepts c' then (length payload, None) else (0, Some ErrFailedToSend)))"
  using assms
  by (simp add: Dial_def Dial_body_def Dial_deferred_def StoreState_def WriteTo_def
      WritePktTo_def accepts_def Let_def split: list.splits)

text \<open>The run against the confirming concentrator, session 0x1234.\<close>
theorem Dial_open_WriteTo_witness:
  "fst (Dial wire (NewPPPoE []) conn_accepting) = None
   \<and> state (fst (snd (Dial wire (NewPPPoE []) conn_accepting))) = pppoeStateOpen
   \<and> sessionID (fst (snd (Dial wire (NewPPPoE []) conn_accepting))) = 0x1234
   \<and> fst (WriteTo wire (fst (snd (Dial wire (NewPPPoE []) conn_accepting))) [0xC0, 0x21, 1] conn_silent)
       = (3, None)
   \<and> writes (snd (WriteTo wire (fst (snd (Dial wire (NewPPPoE []) conn_accepting))) [0xC0, 0x21, 1] conn_silent))
       = [(\<lparr>fbytes = [0x11, 0x00, 0x12, 0x34, 0, 3, 0xC0, 0x21, 1],
            fethertype = EtherTypePPPoESession, fdst = [2, 0, 0, 0, 0, 1]\<rparr>, True)]"
proof -
  let ?p = "StoreState (NewPPPoE []) pppoeStateDialing"
  let ?hw = "[2, 0, 0, 0, 0, 1] :: HardwareAddr"
  let ?pado = "\<lparr>Code = CodePADO, SessionID = 0, Tags = [], Payload = []\<rparr>"
  let ?pads = "\<lparr>Code = CodePADS, SessionID = 0x1234, Tags = [], Payload = []\<rparr>"
  let ?r1 = "getResponse wire ?p (buildPADI ?p) CodePADO BroadCastMAC conn_accepting"
  let ?r2 = "getResponse wire (?p\<lparr>acMAC := ?hw\<rparr>) (buildPADRWithPADO (?p\<lparr>acMAC := ?hw\<rparr>) ?pado)
               CodePADS ?hw (snd ?r1)"
  let ?pkt = "\<lparr>Code = CodeSession, SessionID = SessionID ?pads, Tags = [], Payload = [0xC0, 0x21, 1]\<rparr>"
  have h1: "?r1 = (Inr (?pado, ?hw), snd ?r1)" by (simp add: ev conn_rejecting_def conn_accepting_def conn_silent_def accepts_def)
  have h2: "?r2 = (Inr (?pads, ?hw), snd ?r2)" by (simp add: ev conn_rejecting_def conn_accepting_def conn_silent_def accepts_def)
  have h3: "SessionID ?pads \<noteq> 0" by simp
  have s: "serialize wire ?pkt = Some [0x11, 0x00, 0x12, 0x34, 0, 3, 0xC0, 0x21, 1]" by (simp add: ev conn_rejecting_def conn_accepting_def conn_silent_def accepts_def)
  have a: "accepts conn_silent" by (simp add: ev conn_rejecting_def conn_accepting_def conn_silent_def accepts_def)
  have w: "writes conn_silent = []" by (simp add: ev conn_rejecting_def conn_accepting_def conn_silent_def accepts_def)
  from Dial_open_WriteTo [OF h1 h2 h3 refl refl, of "[0xC0, 0x21, 1]" conn_silent] s a w
  show ?thesis by simp
qed

text \<open>The example instance, evaluated.\<close>
lemma opened_eq:
  "opened = \<lparr>serviceName = [], sessionID = 0x1234,
              tags = [\<lparr>TagType = TagTypeServiceName, Value = []\<rparr>],
              acMAC = [2, 0, 0, 0, 0, 1], debug = False, state = pppoeStateOpen,
              timeout = DefaultTimeout, retry = DefaultRetry,
              stateLog = [pppoeStateInitial, pppoeStateDialing, pppoeStateOpen]\<rparr>"
  by (simp add: opened_def Dial_def Dial_body_def Dial_deferred_def ev conn_accepting_def)

text \<open>
  Claim C6, as stated, fails: \<^verbatim>\<open>Close\<close> stores nothing to the state field, so after
  \<^verbatim>\<open>Close\<close> on an open instance \<^verbatim>\<open>WriteTo\<close> still sends a session packet and returns the
  length of the payload. The transport sees the PADT and then the session frame.
\<close>
theorem Close_then_WriteTo_counterexample:
  "state opened = pppoeStateOpen
   \<and> fst (Close wire opened conn_silent) = None
   \<and> state (fst (snd (Close wire opened conn_silent))) = pppoeStateOpen
   \<and> fst (WriteTo wire (fst (snd (Close wire opened conn_silent))) [0xC0, 0x21, 1]
             (snd (snd (Close wire opened conn_silent)))) = (3, None)
   \<and> map fst (writes (snd (WriteTo wire (fst (snd (Close wire opened conn_silent))) [0xC0, 0x21, 1]
             (snd (snd (Close wire opened conn_silent))))))
       = [\<lparr>fbytes = [0x11, 0xa7, 0x12, 0x34, 0, 0], fethertype = EtherTypePPPoEDiscovery,
            fdst = [2, 0, 0, 0, 0, 1]\<rparr>,
          \<lparr>fbytes = [0x11, 0x00, 0x12, 0x34, 0, 3, 0xC0, 0x21, 1],
            fethertype = EtherTypePPPoESession, fdst = [2, 0, 0, 0, 0, 1]\<rparr>]"
  by (simp add: opened_eq Close_def WriteTo_def ev conn_silent_def)

text \<open>
  Claim C6, amended. \<^verbatim>\<open>Close\<close> on an instance whose state is \<open>Open\<close> leaves the instance
  as it was, the state still \<open>Open\<close>: a later \<^verbatim>\<open>WriteTo\<close> does what it did before
  \<^verbatim>\<open>Close\<close> and never returns the not-open error. \<^verbatim>\<open>WriteTo\<close> returns the not-open error,
  and sends nothing, exactly on an instance whose state is not \<open>Open\<close>.
\<close>
theorem Close_keeps_Open:
  "(state p = pppoeStateOpen \<longrightarrow>
      fst (snd (Close cdc p c)) = p
      \<and> state (fst (snd (Close cdc p c))) = pppoeStateOpen
      \<and> WriteTo cdc (fst (snd (Close cdc p c))) payload c' = WriteTo cdc p payload c'
      \<and> snd (fst (WriteTo cdc (fst (snd (Close cdc p c))) payload c')) \<noteq> Some ErrNotOpen)
   \<and> (state p \<noteq> pppoeStateOpen \<longrightarrow>
      WriteTo cdc p payload c' = ((0, Some ErrNotOpen), c'))"
  by (auto simp: Close_def WriteTo_def Let_def split: option.splits prod.splits bool.splits)

text \<open>On the opened example instance, and on a fresh one.\<close>
theorem Close_keeps_Open_witness:
  "state opened = pppoeStateOpen
   \<and> fst (snd (Close wire opened conn_silent)) = opened
   \<and> snd (fst (WriteTo wire (fst (snd (Close wire opened conn_silent))) [0xC0, 0x21, 1] conn_silent))
        \<noteq> Some ErrNotOpen
   \<and> state (NewPPPoE []) \<noteq> pppoeStateOpen
   \<and> WriteTo wire (NewPPPoE []) [0xC0, 0x21, 1] conn_silent = ((0, Some ErrNotOpen), conn_silent)"
proof -
  have o: "state opened = pppoeStateOpen" by (simp add: opened_eq)
  have n: "state (NewPPPoE []) \<noteq> pppoeStateOpen" by (simp add: NewPPPoE_def)
  from Close_keeps_Open [of opened wire conn_silent "[0xC0, 0x21, 1]" conn_silent] o
    Close_keeps_Open [of "NewPPPoE []" wire conn_silent "[0xC0, 0x21, 1]" conn_silent] n
  show ?thesis by auto
qed

text \<open>
  Claim C7, as stated, fails: when the transport refuses the PADT, \<^verbatim>\<open>Close\<close> still
  returns nil. The error of the write goes to the logger.
\<close>
theorem Close_send_failure_counterexample:
  "state opened = pppoeStateOpen
   \<and> \<not> accepts conn_failing
   \<and> fst (Close wire opened conn_failing) = None
   \<and> writes (snd (snd (Close wire opened conn_failing)))
       = [(\<lparr>fbytes = [0x11, 0xa7, 0x12, 0x34, 0, 0], fethertype = EtherTypePPPoEDiscovery,
             fdst = [2, 0, 0, 0, 0, 1]\<rparr>, False)]"
  by (simp add: opened_eq Close_def ev conn_failing_def accepts_def)

text \<open>
  Claim C7, amended. \<^verbatim>\<open>Close\<close> on an instance whose state is \<open>Open\<close> builds a PADT for
  the current session id; if the packet does not serialize that error is returned and
  nothing is sent; otherwise the PADT is handed to the transport for the concentrator's
  address with the discovery ether type and \<^verbatim>\<open>Close\<close> returns nil, whether the transport
  accepted the frame or not. With any other state \<^verbatim>\<open>Close\<close> sends nothing and returns nil.
\<close>
theorem Close_result:
  "(state p = pppoeStateOpen \<and> serialize cdc (buildPADT p) = None \<longrightarrow>
      Close cdc p c = (Some ErrSerialize, p, c))
   \<and> (state p = pppoeStateOpen \<and> serialize cdc (buildPADT p) = Some b \<longrightarrow>
      fst (Close cdc p c) = None
      \<and> writes (snd (snd (Close cdc p c)))
          = writes c @ [(\<lparr>fbytes = b, fethertype = EtherTypePPPoEDiscovery, fdst = acMAC p\<rparr>,
                         accepts c)])
   \<and> (state p \<noteq> pppoeStateOpen \<longrightarrow> Close cdc p c = (None, p, c))
   \<and> Code (buildPADT p) = CodePADT \<and> SessionID (buildPADT p) = sessionID p"
  by (auto simp: Close_def WritePktTo_def accepts_def buildPADT_def Let_def split: list.splits)

text \<open>
  On the opened example instance with a refusing transport, with a codec that cannot
  serialize, and on a fresh instance.
\<close>
theorem Close_result_witness:
  "state opened = pppoeStateOpen
   \<and> serialize wire (buildPADT opened) = Some [0x11, 0xa7, 0x12, 0x34, 0, 0]
   \<and> fst (Close wire opened conn_failing) = None
   \<and> writes (snd (snd (Close wire opened conn_failing)))
       = [(\<lparr>fbytes = [0x11, 0xa7, 0x12, 0x34, 0, 0], fethertype = EtherTypePPPoEDiscovery,
             fdst = [2, 0, 0, 0, 0, 1]\<rparr>, False)]
   \<and> Close \<lparr>serialize = \<lambda>pkt. None, parse = wire_parse\<rparr> opened conn_failing
       = (Some ErrSerialize, opened, conn_failing)
   \<and> state (NewPPPoE []) \<noteq> pppoeStateOpen
   \<and> Close wire (NewPPPoE []) conn_failing = (None, NewPPPoE [], conn_failing)"
proof -
  have o: "state opened = pppoeStateOpen" by (simp add: opened_eq)
  have s: "serialize wire (buildPADT opened) = Some [0x11, 0xa7, 0x12, 0x34, 0, 0]"
    by (simp add: opened_eq ev)
  have z: "serialize \<lparr>serialize = \<lambda>pkt. None, parse = wire_parse\<rparr> (buildPADT opened) = None"
    by simp
  have n: "state (NewPPPoE []) \<noteq> pppoeStateOpen" by (simp add: NewPPPoE_def)
  have a: "\<not> accepts conn_failing" "writes conn_failing = []" "acMAC opened = [2, 0, 0, 0, 0, 1]"
    by (simp_all add: conn_failing_def accepts_def opened_eq)
  from Close_result [of opened wire conn_failing "[0x11, 0xa7, 0x12, 0x34, 0, 0]"]
    Close_result [of opened "\<lparr>serialize = \<lambda>pkt. None, parse = wire_parse\<rparr>" conn_failing "[]"]
    Close_result [of "NewPPPoE []" wire conn_failing "[]"] o s z n a
  show ?thesis by auto
qed

text \<open>
  The default configuration gives the PADI one service-name tag, and every PADR has
  exactly one, whatever the configured tags and the PADO.
\<close>
lemma buildPADI_default_service_name:
  "length (filter (\<lambda>t. TagType t = TagTypeServiceName)
     (Tags (buildPADI (StoreState (NewPPPoE [WithDebug d, WithTags None]) pppoeStateDialing)))) = 1"
  by (simp add: buildPADI_def NewPPPoE_def StoreState_def)

lemma buildPADRWithPADO_service_name_once:
  "length (filter (\<lambda>t. TagType t = TagTypeServiceName) (Tags (buildPADRWithPADO p pado))) = 1"
  by (simp add: buildPADRWithPADO_def GetTag_def TagTypeServiceName_def TagTypeACCookie_def
      TagTypeRelaySessionID_def)

text \<open>
  Claim C9. The PADI that \<^verbatim>\<open>Dial\<close> builds does not always contain the service-name tag
  exactly once: \<^verbatim>\<open>buildPADI\<close> copies the configured tags as they are, and \<^verbatim>\<open>WithTags\<close>
  replaces the default tags rather than adding to them. After \<^verbatim>\<open>WithTags\<close> of an empty
  (non-nil) slice the PADI has no service-name tag, and after \<^verbatim>\<open>WithTags\<close> of two
  service-name tags it has two.
\<close>
theorem buildPADI_without_service_name:
  "Tags (buildPADI (StoreState (NewPPPoE [WithTags (Some [])]) pppoeStateDialing)) = []
   \<and> length (filter (\<lambda>t. TagType t = TagTypeServiceName)
        (Tags (buildPADI (StoreState
           (NewPPPoE [WithTags (Some [\<lparr>TagType = TagTypeServiceName, Value = [0x61]\<rparr>,
                                      \<lparr>TagType = TagTypeServiceName, Value = [0x62]\<rparr>])])
           pppoeStateDialing)))) = 2"
  by (simp add: buildPADI_def NewPPPoE_def StoreState_def)

section \<open>The discovery engine: retries\<close>

text \<open>The outcomes of the next reads, one read at a time.\<close>
lemma take_append_replicate_Suc:
  "take n (xs @ replicate (Suc n) x) = take n (xs @ replicate n x)"
proof -
  have e: "xs @ replicate (Suc n) x = (xs @ replicate n x) @ [x]"
    by (simp add: replicate_append_same)
  show ?thesis unfolding e by (subst take_append) simp
qed

lemma next_reads_Suc_Nil:
  "readScript c = [] \<Longrightarrow> readScript c2 = [] \<Longrightarrow>
   next_reads (Suc n) c = RxTimeout # next_reads n c2"
  by (simp add: next_reads_def)

lemma next_reads_Suc_Cons:
  "readScript c = r # rs \<Longrightarrow> readScript c2 = rs \<Longrightarrow>
   next_reads (Suc n) c = r # next_reads n c2"
  unfolding next_reads_def using take_append_replicate_Suc [of n rs RxTimeout] by simp

lemma length_next_reads: "length (next_reads n c) = n"
  by (simp add: next_reads_def)

text \<open>
  When the next \<open>n\<close> writes are accepted and none of the next \<open>n\<close> reads brings a
  response of the awaited code, the loop of \<^verbatim>\<open>getResponse\<close> runs all its \<open>n\<close> iterations and
  fails. Each iteration is one attempt: it sends the request, sets the read deadline to
  \<^verbatim>\<open>timeout\<close> from now, and reads once.
\<close>
lemma getResponse_loop_no_match:
  assumes "True \<notin> set (take n (writeScript c))"
    and "\<forall>r \<in> set (next_reads n c). no_match cdc code r"
  shows "fst (getResponse_loop cdc p code dst b n c) = Inl (ErrFailedToRecvExpectedResponse code)
       \<and> writes (snd (getResponse_loop cdc p code dst b n c))
           = writes c @ replicate n (\<lparr>fbytes = b, fethertype = EtherTypePPPoEDiscovery, fdst = dst\<rparr>, True)
       \<and> calls (snd (getResponse_loop cdc p code dst b n c))
           = calls c @ concat (map (attempt_calls
                 \<lparr>fbytes = b, fethertype = EtherTypePPPoEDiscovery, fdst = dst\<rparr> (timeout p))
               (next_reads n c))"
  using assms
proof (induction n arbitrary: c)
  case 0
  then show ?case by (simp add: next_reads_def)
next
  case (Suc n)
  let ?f = "\<lparr>fbytes = b, fethertype = EtherTypePPPoEDiscovery, fdst = dst\<rparr>"
  obtain c1 where w: "WritePktTo c b EtherTypePPPoEDiscovery dst = (True, c1)"
    and w1: "writes c1 = writes c @ [(?f, True)]"
    and w2: "True \<notin> set (take n (writeScript c1))"
    and w3: "readScript c1 = readScript c"
    and w4: "calls c1 = calls c @ [CallWritePktTo ?f True]"
    using Suc.prems(1) by (cases "writeScript c") (auto simp: WritePktTo_def Let_def)
  obtain r c2 where rd: "ReadPkt (SetReadDeadline c1 (timeout p)) = (r, c2)"
    and r0: "next_reads (Suc n) c = r # next_reads n c2"
    and r2: "writes c2 = writes c1"
    and r3: "calls c2 = calls c1 @ [CallSetReadDeadline (timeout p), CallReadPkt r]"
    and r4: "writeScript c2 = writeScript c1"
  proof (cases "readScript c")
    case Nil
    let ?c2 = "snd (ReadPkt (SetReadDeadline c1 (timeout p)))"
    have "ReadPkt (SetReadDeadline c1 (timeout p)) = (RxTimeout, ?c2)"
      "readScript ?c2 = []" "writes ?c2 = writes c1" "writeScript ?c2 = writeScript c1"
      "calls ?c2 = calls c1 @ [CallSetReadDeadline (timeout p), CallReadPkt RxTimeout]"
      using Nil w3 by (simp_all add: ReadPkt_def SetReadDeadline_def)
    with that [of RxTimeout ?c2] next_reads_Suc_Nil [OF Nil, of ?c2 n] show ?thesis by simp
  next
    case (Cons r rs)
    let ?c2 = "snd (ReadPkt (SetReadDeadline c1 (timeout p)))"
    have "ReadPkt (SetReadDeadline c1 (timeout p)) = (r, ?c2)"
      "readScript ?c2 = rs" "writes ?c2 = writes c1" "writeScript ?c2 = writeScript c1"
      "calls ?c2 = calls c1 @ [CallSetReadDeadline (timeout p), CallReadPkt r]"
      using Cons w3 by (simp_all add: ReadPkt_def SetReadDeadline_def)
    with that [of r ?c2] next_reads_Suc_Cons [OF Cons, of ?c2 n] show ?thesis by simp
  qed
  have r1: "no_match cdc code r" and r5: "\<forall>r \<in> set (next_reads n c2). no_match cdc code r"
    using Suc.prems(2) r0 by simp_all
  have w5: "True \<notin> set (take n (writeScript c2))" using w2 r4 by simp
  have step: "getResponse_loop cdc p code dst b (Suc n) c = getResponse_loop cdc p code dst b n c2"
    using w rd r1 by (cases r) (auto split: option.splits)
  from Suc.IH [OF w5 r5] show ?case
    unfolding step by (simp add: r0 r2 r3 w1 w4 replicate_append_same attempt_calls_def)
qed

text \<open>No modifier changes the retry count or the timeout.\<close>
lemma fold_applyModifier_retry_timeout:
  "retry (fold applyModifier options r) = retry r \<and> timeout (fold applyModifier options r) = timeout r"
proof (induction options arbitrary: r)
  case Nil
  then show ?case by simp
next
  case (Cons m ms)
  have "retry (applyModifier m r) = retry r \<and> timeout (applyModifier m r) = timeout r"
    by (cases "(m, r)" rule: applyModifier.cases) auto
  with Cons show ?case by simp
qed

text \<open>
  Claim C3. If the next \<^verbatim>\<open>retry\<close> writes are accepted and none of the next \<^verbatim>\<open>retry\<close>
  reads brings a PADO (each times out or brings a frame that is no PADO, whatever may
  arrive later), \<^verbatim>\<open>Dial\<close> fails with the error of the exhausted loop, the state \<open>Closed\<close>,
  after exactly \<^verbatim>\<open>retry\<close> attempts: the calls it makes on the transport are, \<^verbatim>\<open>retry\<close>
  times over, the PADI sent to the broadcast address, the read deadline set to
  \<^verbatim>\<open>timeout\<close> from now, and one read, in this order. So each read waits under a deadline
  of \<^verbatim>\<open>timeout\<close> set immediately before it. The same holds for the PADR, sent to the
  sender of the PADO, when a PADO arrived and no PADS does. A new instance has
  \<^verbatim>\<open>retry\<close> 3 and \<^verbatim>\<open>timeout\<close> 3 seconds, whatever its options.
\<close>
theorem Dial_timeout:
  "(serialize cdc (buildPADI (StoreState p pppoeStateDialing)) = Some b
      \<and> True \<notin> set (take (nat (retry p)) (writeScript c))
      \<and> (\<forall>r \<in> set (next_reads (nat (retry p)) c). no_match cdc CodePADO r) \<longrightarrow>
      fst (Dial cdc p c) = Some (ErrFailedToRecvExpectedResponse CodePADO)
      \<and> state (fst (snd (Dial cdc p c))) = pppoeStateClosed
      \<and> writes (snd (snd (Dial cdc p c)))
          = writes c @ replicate (nat (retry p))
              (\<lparr>fbytes = b, fethertype = EtherTypePPPoEDiscovery, fdst = BroadCastMAC\<rparr>, True)
      \<and> calls (snd (snd (Dial cdc p c)))
          = calls c @ concat (map (attempt_calls
                \<lparr>fbytes = b, fethertype = EtherTypePPPoEDiscovery, fdst = BroadCastMAC\<rparr>
                (timeout p))
              (next_reads (nat (retry p)) c)))
   \<and> (getResponse cdc (StoreState p pppoeStateDialing) (buildPADI (StoreState p pppoeStateDialing))
         CodePADO BroadCastMAC c = (Inr (pado, hw), c1)
      \<and> serialize cdc (buildPADRWithPADO (StoreState p pppoeStateDialing\<lparr>acMAC := hw\<rparr>) pado) = Some b'
      \<and> True \<notin> set (take (nat (retry p)) (writeScript c1))
      \<and> (\<forall>r \<in> set (next_reads (nat (retry p)) c1). no_match cdc CodePADS r) \<longrightarrow>
      fst (Dial cdc p c) = Some (ErrFailedToRecvExpectedResponse CodePADS)
      \<and> state (fst (snd (Dial cdc p c))) = pppoeStateClosed
      \<and> writes (snd (snd (Dial cdc p c)))
          = writes c1 @ replicate (nat (retry p))
              (\<lparr>fbytes = b', fethertype = EtherTypePPPoEDiscovery, fdst = hw\<rparr>, True)
      \<and> calls (snd (snd (Dial cdc p c)))
          = calls c1 @ concat (map (attempt_calls
                \<lparr>fbytes = b', fethertype = EtherTypePPPoEDiscovery, fdst = hw\<rparr> (timeout p))
              (next_reads (nat (retry p)) c1)))
   \<and> length (next_reads (nat (retry p)) c) = nat (retry p)
   \<and> retry (NewPPPoE options) = 3
   \<and> timeout (NewPPPoE options) = 3 * 1000000000"
proof (intro conjI impI)
  let ?p = "StoreState p pppoeStateDialing"
  {
    assume a: "serialize cdc (buildPADI ?p) = Some b
      \<and> True \<notin> set (take (nat (retry p)) (writeScript c))
      \<and> (\<forall>r \<in> set (next_reads (nat (retry p)) c). no_match cdc CodePADO r)"
    let ?f = "\<lparr>fbytes = b, fethertype = EtherTypePPPoEDiscovery, fdst = BroadCastMAC\<rparr>"
    let ?g = "getResponse_loop cdc ?p CodePADO BroadCastMAC b (nat (retry ?p)) c"
    have rp: "retry ?p = retry p" "timeout ?p = timeout p" by (simp_all add: StoreState_def)
    from a have l: "fst ?g = Inl (ErrFailedToRecvExpectedResponse CodePADO)
       \<and> writes (snd ?g) = writes c @ replicate (nat (retry ?p)) (?f, True)
       \<and> calls (snd ?g) = calls c @ concat (map (attempt_calls ?f (timeout ?p))
            (next_reads (nat (retry ?p)) c))"
      by (intro getResponse_loop_no_match) (simp_all add: rp)
    have g: "getResponse cdc ?p (buildPADI ?p) CodePADO BroadCastMAC c
               = (Inl (ErrFailedToRecvExpectedResponse CodePADO), snd ?g)"
      using a l by (simp add: getResponse_def prod_eq_iff)
    have d: "Dial cdc p c = (Some (ErrFailedToRecvExpectedResponse CodePADO),
                Dial_deferred (?p\<lparr>acMAC := []\<rparr>), snd ?g)"
      by (simp add: Dial_def Dial_body_def g)
    show "fst (Dial cdc p c) = Some (ErrFailedToRecvExpectedResponse CodePADO)"
      and "state (fst (snd (Dial cdc p c))) = pppoeStateClosed"
      and "writes (snd (snd (Dial cdc p c)))
          = writes c @ replicate (nat (retry p)) (?f, True)"
      and "calls (snd (snd (Dial cdc p c)))
          = calls c @ concat (map (attempt_calls ?f (timeout p)) (next_reads (nat (retry p)) c))"
      using l by (simp_all add: d Dial_deferred_def rp) (simp_all add: StoreState_def)
  }
  {
    assume a: "getResponse cdc ?p (buildPADI ?p) CodePADO BroadCastMAC c = (Inr (pado, hw), c1)
      \<and> serialize cdc (buildPADRWithPADO (?p\<lparr>acMAC := hw\<rparr>) pado) = Some b'
      \<and> True \<notin> set (take (nat (retry p)) (writeScript c1))
      \<and> (\<forall>r \<in> set (next_reads (nat (retry p)) c1). no_match cdc CodePADS r)"
    let ?p1 = "?p\<lparr>acMAC := hw\<rparr>"
    let ?f = "\<lparr>fbytes = b', fethertype = EtherTypePPPoEDiscovery, fdst = hw\<rparr>"
    let ?g = "getResponse_loop cdc ?p1 CodePADS hw b' (nat (retry ?p1)) c1"
    have rp: "retry ?p1 = retry p" "timeout ?p1 = timeout p" by (simp_all add: StoreState_def)
    from a have l: "fst ?g = Inl (ErrFailedToRecvExpectedResponse CodePADS)
       \<and> writes (snd ?g) = writes c1 @ replicate (nat (retry ?p1)) (?f, True)
       \<and> calls (snd ?g) = calls c1 @ concat (map (attempt_calls ?f (timeout ?p1))
            (next_reads (nat (retry ?p1)) c1))"
      by (intro getResponse_loop_no_match) (simp_all add: rp)
    have g: "getResponse cdc ?p1 (buildPADRWithPADO ?p1 pado) CodePADS hw c1
               = (Inl (ErrFailedToRecvExpectedResponse CodePADS), snd ?g)"
      using a l by (simp add: getResponse_def prod_eq_iff)
    have d: "Dial cdc p c = (Some (ErrFailedToRecvExpectedResponse CodePADS),
                Dial_deferred ?p1, snd ?g)"
      using a g by (simp add: Dial_def Dial_body_def Let_def)
    show "fst (Dial cdc p c) = Some (ErrFailedToRecvExpectedResponse CodePADS)"
      and "state (fst (snd (Dial cdc p c))) = pppoeStateClosed"
      and "writes (snd (snd (Dial cdc p c)))
          = writes c1 @ replicate (nat (retry p)) (?f, True)"
      and "calls (snd (snd (Dial cdc p c)))
          = calls c1 @ concat (map (attempt_calls ?f (timeout p)) (next_reads (nat (retry p)) c1))"
      using l by (simp_all add: d Dial_deferred_def rp) (simp_all add: StoreState_def)
  }
  show "length (next_reads (nat (retry p)) c) = nat (retry p)" by (rule length_next_reads)
  show "retry (NewPPPoE options) = 3" "timeout (NewPPPoE options) = 3 * 1000000000"
    by (simp_all add: NewPPPoE_def fold_applyModifier_retry_timeout DefaultRetry_def
        DefaultTimeout_def Let_def)
qed

text \<open>
  On a silent transport, on one where the offer comes too late, and against a
  concentrator that only offers.
\<close>
theorem Dial_timeout_witness:
  "fst (Dial wire (NewPPPoE []) conn_silent) = Some (ErrFailedToRecvExpectedResponse CodePADO)
   \<and> state (fst (snd (Dial wire (NewPPPoE []) conn_silent))) = pppoeStateClosed
   \<and> calls (snd (snd (Dial wire (NewPPPoE []) conn_silent)))
       = [CallWritePktTo \<lparr>fbytes = [0x11, 0x09, 0, 0, 0, 4, 1, 1, 0, 0],
                          fethertype = EtherTypePPPoEDiscovery, fdst = BroadCastMAC\<rparr> True,
          CallSetReadDeadline 3000000000, CallReadPkt RxTimeout,
          CallWritePktTo \<lparr>fbytes = [0x11, 0x09, 0, 0, 0, 4, 1, 1, 0, 0],
                          fethertype = EtherTypePPPoEDiscovery, fdst = BroadCastMAC\<rparr> True,
          CallSetReadDeadline 3000000000, CallReadPkt RxTimeout,
          CallWritePktTo \<lparr>fbytes = [0x11, 0x09, 0, 0, 0, 4, 1, 1, 0, 0],
                          fethertype = EtherTypePPPoEDiscovery, fdst = BroadCastMAC\<rparr> True,
          CallSetReadDeadline 3000000000, CallReadPkt RxTimeout]
   \<and> fst (Dial wire (NewPPPoE []) conn_late_offer) = Some (ErrFailedToRecvExpectedResponse CodePADO)
   \<and> length (writes (snd (snd (Dial wire (NewPPPoE []) conn_late_offer)))) = 3
   \<and> fst (Dial wire (NewPPPoE []) conn_offer_only) = Some (ErrFailedToRecvExpectedResponse CodePADS)
   \<and> writes (snd (snd (Dial wire (NewPPPoE []) conn_offer_only)))
       = [(\<lparr>fbytes = [0x11, 0x09, 0, 0, 0, 4, 1, 1, 0, 0],
             fethertype = EtherTypePPPoEDiscovery, fdst = BroadCastMAC\<rparr>, True),
          (\<lparr>fbytes = [0x11, 0x19, 0, 0, 0, 4, 1, 1, 0, 0],
             fethertype = EtherTypePPPoEDiscovery, fdst = [2, 0, 0, 0, 0, 1]\<rparr>, True),
          (\<lparr>fbytes = [0x11, 0x19, 0, 0, 0, 4, 1, 1, 0, 0],
             fethertype = EtherTypePPPoEDiscovery, fdst = [2, 0, 0, 0, 0, 1]\<rparr>, True),
          (\<lparr>fbytes = [0x11, 0x19, 0, 0, 0, 4, 1, 1, 0, 0],
             fethertype = EtherTypePPPoEDiscovery, fdst = [2, 0, 0, 0, 0, 1]\<rparr>, True)]"
proof -
  let ?p = "StoreState (NewPPPoE []) pppoeStateDialing"
  let ?hw = "[2, 0, 0, 0, 0, 1] :: HardwareAddr"
  let ?pado = "\<lparr>Code = CodePADO, SessionID = 0, Tags = [], Payload = []\<rparr>"
  let ?r1 = "getResponse wire ?p (buildPADI ?p) CodePADO BroadCastMAC conn_offer_only"
  have s1: "serialize wire (buildPADI ?p) = Some [0x11, 0x09, 0, 0, 0, 4, 1, 1, 0, 0]"
    by (simp add: ev)
  have s2: "serialize wire (buildPADRWithPADO (?p\<lparr>acMAC := ?hw\<rparr>) ?pado)
              = Some [0x11, 0x19, 0, 0, 0, 4, 1, 1, 0, 0]"
    by (simp add: ev)
  have v: "nat (retry (NewPPPoE [])) = 3" "timeout (NewPPPoE []) = 3000000000"
    by (simp_all add: NewPPPoE_def DefaultRetry_def DefaultTimeout_def)
  have pw: "parse wire [] = None" by (simp add: wire_def)
  have n1: "next_reads 3 conn_silent = [RxTimeout, RxTimeout, RxTimeout]"
    "writeScript conn_silent = []" "writes conn_silent = []" "calls conn_silent = []"
    by (simp_all add: next_reads_def conn_silent_def numeral_3_eq_3)
  have n2: "next_reads 3 conn_late_offer = [RxTimeout, RxTimeout, RxTimeout]"
    "writeScript conn_late_offer = []" "writes conn_late_offer = []"
    by (simp_all add: next_reads_def conn_late_offer_def numeral_3_eq_3)
  have h1: "?r1 = (Inr (?pado, ?hw), snd ?r1)"
    by (simp add: ev conn_offer_only_def)
  have c1: "writeScript (snd ?r1) = []" "readScript (snd ?r1) = []"
    "writes (snd ?r1) = [(\<lparr>fbytes = [0x11, 0x09, 0, 0, 0, 4, 1, 1, 0, 0],
            fethertype = EtherTypePPPoEDiscovery, fdst = BroadCastMAC\<rparr>, True)]"
    by (simp_all add: ev conn_offer_only_def)
  have n3: "next_reads 3 (snd ?r1) = [RxTimeout, RxTimeout, RxTimeout]"
    using c1(2) by (simp add: next_reads_def numeral_3_eq_3)
  have rep: "\<And>x :: frame \<times> bool. replicate 3 x = [x, x, x]"
    by (simp add: numeral_3_eq_3)
  from Dial_timeout [where cdc = wire and p = "NewPPPoE []" and c = conn_silent
        and b = "[0x11, 0x09, 0, 0, 0, 4, 1, 1, 0, 0]"]
    Dial_timeout [where cdc = wire and p = "NewPPPoE []" and c = conn_late_offer
        and b = "[0x11, 0x09, 0, 0, 0, 4, 1, 1, 0, 0]"]
    Dial_timeout [where cdc = wire and p = "NewPPPoE []" and c = conn_offer_only
        and pado = ?pado and hw = ?hw and ?c1.0 = "snd ?r1"
        and b' = "[0x11, 0x19, 0, 0, 0, 4, 1, 1, 0, 0]"]
    s1 s2 h1
  show ?thesis
    by (simp add: v pw n1 n2 n3 c1 rep attempt_calls_def)
qed

section \<open>The discovery engine: state sequences\<close>

text \<open>
  The sequence of values stored to the state field. \<^verbatim>\<open>Dial\<close> appends \<open>Dialing\<close> and then
  \<open>Open\<close> or \<open>Closed\<close>; \<^verbatim>\<open>Close\<close> appends nothing.
\<close>
lemma followed_by_snoc:
  "followed_by a b (xs @ [y]) = (followed_by a b xs \<or> (xs \<noteq> [] \<and> last xs = a \<and> y = b))"
  by (induction a b xs rule: followed_by.induct) auto

lemma Dial_stateLog:
  "\<exists>s. (s = pppoeStateOpen \<or> s = pppoeStateClosed)
       \<and> state (fst (snd (Dial cdc p c))) = s
       \<and> stateLog (fst (snd (Dial cdc p c))) = stateLog p @ [pppoeStateDialing, s]"
  by (auto simp: Dial_def Dial_body_def Dial_deferred_def StoreState_def Let_def
      split: prod.splits sum.splits)

lemma Close_instance: "fst (snd (Close cdc p c)) = p"
  by (simp add: Close_def split: option.splits prod.splits)

lemma run_op_Close_instance: "fst (run_op cdc OpClose pc) = fst pc"
  using Close_instance [of cdc "fst pc" "snd pc"]
  by (cases pc) (auto split: prod.splits)

lemma run_op_Dial_instance: "fst (run_op cdc OpDial pc) = fst (snd (Dial cdc (fst pc) (snd pc)))"
  by (cases pc) (simp split: prod.splits)

lemma run_ops_followed_by:
  assumes "stateLog p \<noteq> []" and "last (stateLog p) = state p"
  shows "followed_by pppoeStateOpen pppoeStateDialing (stateLog (fst (run_ops cdc ops (p, c))))
           = (followed_by pppoeStateOpen pppoeStateDialing (stateLog p) \<or> redials cdc ops (p, c))"
  using assms
proof (induction ops arbitrary: p c)
  case Nil
  then show ?case by (simp add: run_ops_def)
next
  case (Cons x ops)
  show ?case
  proof (cases x)
    case OpDial
    obtain e p1 c1 where d: "Dial cdc p c = (e, p1, c1)" by (cases "Dial cdc p c") auto
    from Dial_stateLog [of cdc p c] d obtain s where
      s: "s = pppoeStateOpen \<or> s = pppoeStateClosed" "state p1 = s"
         "stateLog p1 = stateLog p @ [pppoeStateDialing, s]"
      by auto
    have inv: "stateLog p1 \<noteq> []" "last (stateLog p1) = state p1" using s by auto
    have "stateLog p1 = (stateLog p @ [pppoeStateDialing]) @ [s]" using s by simp
    then have fb: "followed_by pppoeStateOpen pppoeStateDialing (stateLog p1)
        = (followed_by pppoeStateOpen pppoeStateDialing (stateLog p) \<or> state p = pppoeStateOpen)"
      using Cons.prems by (simp only: followed_by_snoc) auto
    have r: "run_op cdc x (p, c) = (p1, c1)" using OpDial d by simp
    from Cons.IH [OF inv, of c1] fb r OpDial show ?thesis
      by (auto simp: run_ops_def)
  next
    case OpClose
    obtain e p1 c1 where d: "Close cdc p c = (e, p1, c1)" by (cases "Close cdc p c") auto
    with Close_instance [of cdc p c] have p1: "p1 = p" by simp
    have r: "run_op cdc x (p, c) = (p, c1)" using OpClose d p1 by simp
    from Cons.IH [OF Cons.prems, of c1] r OpClose show ?thesis
      by (auto simp: run_ops_def)
  qed
qed

text \<open>
  Claim C8, as stated, fails: \<^verbatim>\<open>Dial\<close> stores \<open>Dialing\<close> before anything else, whatever
  the state, so a second \<^verbatim>\<open>Dial\<close> on an open instance takes the state from \<open>Open\<close> to
  \<open>Dialing\<close>.
\<close>
theorem Open_to_Dialing_counterexample:
  "stateLog (fst (run_ops wire [OpDial, OpDial] (NewPPPoE [], conn_accepting)))
     = [pppoeStateInitial, pppoeStateDialing, pppoeStateOpen, pppoeStateDialing, pppoeStateClosed]
   \<and> followed_by pppoeStateOpen pppoeStateDialing
        (stateLog (fst (run_ops wire [OpDial, OpDial] (NewPPPoE [], conn_accepting))))"
  by (simp add: run_ops_def Dial_def Dial_body_def Dial_deferred_def ev conn_accepting_def)

text \<open>
  Claim C8, amended. \<^verbatim>\<open>Close\<close> never changes the state, and one run of \<^verbatim>\<open>Dial\<close> stores
  \<open>Dialing\<close> followed by \<open>Open\<close> or by \<open>Closed\<close>. In the state sequence of any run of
  \<^verbatim>\<open>Dial\<close> and \<^verbatim>\<open>Close\<close> calls on a new instance, an \<open>Open\<close> is immediately followed by a
  \<open>Dialing\<close> exactly when some \<^verbatim>\<open>Dial\<close> of the run is called on an instance whose state
  is \<open>Open\<close>.
\<close>
theorem Open_to_Dialing_only_on_redial:
  "fst (snd (Close cdc p c)) = p
   \<and> (\<exists>s. (s = pppoeStateOpen \<or> s = pppoeStateClosed)
         \<and> stateLog (fst (snd (Dial cdc p c))) = stateLog p @ [pppoeStateDialing, s])
   \<and> followed_by pppoeStateOpen pppoeStateDialing
        (stateLog (fst (run_ops cdc ops (NewPPPoE options, c))))
      = redials cdc ops (NewPPPoE options, c)"
proof (intro conjI)
  show "fst (snd (Close cdc p c)) = p" by (rule Close_instance)
next
  from Dial_stateLog [of cdc p c] obtain s where
    "s = pppoeStateOpen \<or> s = pppoeStateClosed"
    "stateLog (fst (snd (Dial cdc p c))) = stateLog p @ [pppoeStateDialing, s]"
    by (elim exE conjE)
  then show "\<exists>s. (s = pppoeStateOpen \<or> s = pppoeStateClosed)
         \<and> stateLog (fst (snd (Dial cdc p c))) = stateLog p @ [pppoeStateDialing, s]"
    by (intro exI [of _ s] conjI)
next
  have "stateLog (NewPPPoE options) = [pppoeStateInitial]"
    "state (NewPPPoE options) = pppoeStateInitial"
    by (simp_all add: NewPPPoE_def Let_def)
  then show "followed_by pppoeStateOpen pppoeStateDialing
        (stateLog (fst (run_ops cdc ops (NewPPPoE options, c))))
      = redials cdc ops (NewPPPoE options, c)"
    by (subst run_ops_followed_by) simp_all
qed

text \<open>A run that dials once, and a run that dials again after \<^verbatim>\<open>Close\<close>.\<close>
theorem Open_to_Dialing_only_on_redial_witness:
  "\<not> redials wire [OpDial, OpClose, OpClose] (NewPPPoE [], conn_accepting)
   \<and> \<not> followed_by pppoeStateOpen pppoeStateDialing
        (stateLog (fst (run_ops wire [OpDial, OpClose, OpClose] (NewPPPoE [], conn_accepting))))
   \<and> redials wire [OpDial, OpClose, OpDial] (NewPPPoE [], conn_accepting)
   \<and> followed_by pppoeStateOpen pppoeStateDialing
        (stateLog (fst (run_ops wire [OpDial, OpClose, OpDial] (NewPPPoE [], conn_accepting))))"
proof -
  have n: "state (NewPPPoE []) = pppoeStateInitial" by (simp add: NewPPPoE_def)
  have o: "state (fst (snd (Dial wire (NewPPPoE []) conn_accepting))) = pppoeStateOpen"
    using opened_eq by (simp add: opened_def)
  have r1: "\<not> redials wire [OpDial, OpClose, OpClose] (NewPPPoE [], conn_accepting)"
    by (simp add: n)
  have r2: "redials wire [OpDial, OpClose, OpDial] (NewPPPoE [], conn_accepting)"
    by (simp add: n o run_op_Close_instance run_op_Dial_instance case_prod_unfold)
  from Open_to_Dialing_only_on_redial [where cdc = wire and ops = "[OpDial, OpClose, OpClose]"
        and options = "[]" and c = conn_accepting]
    Open_to_Dialing_only_on_redial [where cdc = wire and ops = "[OpDial, OpClose, OpDial]"
        and options = "[]" and c = conn_accepting]
    r1 r2
  show ?thesis by simp
qed

section \<open>PPP frames and the multiplexer: properties\<close>

text \<open>
  The two halves of \<^verbatim>\<open>relay\<close>: the delivery, which changes neither the send channel nor
  the request id, and \<^verbatim>\<open>sendProtocolRejct\<close>.
\<close>
lemma Uint16_take_2: "2 \<le> length buf \<Longrightarrow> Uint16 (take 2 buf) = Uint16 buf"
  by (cases buf; cases "tl buf") auto

lemma sendProtocolRejct_wellKnown:
  "Uint16 buf = Some pn \<Longrightarrow> 2 \<le> length buf \<Longrightarrow> pn \<in> set wellKnown \<Longrightarrow>
   sendProtocolRejct ps buf s = Inr s"
  by (simp add: sendProtocolRejct_def Uint16_take_2)

lemma sendProtocolRejct_unknown:
  assumes "Uint16 buf = Some pn" and "2 \<le> length buf" and "pn \<notin> set wellKnown"
    and "ps \<lparr>PktProto = ProtoLCP, PktCode = CodeProtocolReject, ID = reqID s + 1,
              PktPayload = take 2 buf @ buf\<rparr> = Some body"
    and "\<not> closed (sendChan s)" and "length (cbuf (sendChan s)) < sendCHanDepth"
  shows "sendProtocolRejct ps buf s
           = Inr (s\<lparr>reqID := reqID s + 1,
                    sendChan := sendChan s\<lparr>cbuf := cbuf (sendChan s) @ [PutUint16 ProtoLCP @ body]\<rparr>\<rparr>)"
  using assms
  by (simp add: sendProtocolRejct_def Uint16_take_2 NewPkt_def NewPPPPkt_def
      PPPPacket_Serialize_def chan_send_def Let_def)

lemma relay_delivers:
  assumes "2 < length buf" and "Uint16 buf = Some pn" and "deliverable s pn"
  shows "\<exists>s1. relay ps buf s = sendProtocolRejct ps buf s1
           \<and> sendChan s1 = sendChan s \<and> reqID s1 = reqID s"
  using assms
  by (auto simp: relay_def deliverable_def Uint16_take_2 chan_send_def
      split: option.splits)

lemma relay_registered:
  assumes "2 < length buf" and "Uint16 buf = Some pn"
    and "relayChanList s pn = Some a" and "chans s a = Some ch"
    and "\<not> closed ch" and "length (cbuf ch) < relayChanDepth"
  shows "relay ps buf s
           = sendProtocolRejct ps buf (s\<lparr>chans := (chans s)(a \<mapsto> ch\<lparr>cbuf := cbuf ch @ [drop 2 buf]\<rparr>)\<rparr>)"
  using assms by (simp add: relay_def Uint16_take_2 chan_send_def)

lemma relay_unregistered:
  assumes "2 < length buf" and "Uint16 buf = Some pn" and "relayChanList s pn = None"
  shows "relay ps buf s = sendProtocolRejct ps buf s"
  using assms by (simp add: relay_def Uint16_take_2)

text \<open>
  Claim C5, as stated, fails: the guard of \<^verbatim>\<open>Parse\<close> and of \<^verbatim>\<open>relay\<close> is
  \<^verbatim>\<open>len(buf) <= 2\<close>, so a frame of exactly two bytes is rejected by \<^verbatim>\<open>Parse\<close> and dropped
  by \<^verbatim>\<open>relay\<close> (no delivery, no protocol reject).
\<close>
theorem PPPPacket_Parse_two_bytes_counterexample:
  "PPPPacket_Parse [0xC0, 0x21] = Inl (InvalidPPPPacketLength 2)
   \<and> relay lcp_wire [0x00, 0xFF] NewPPP = Inr NewPPP"
  by (simp add: PPPPacket_Parse_def relay_def)

text \<open>
  Claim C5, amended. \<^verbatim>\<open>Parse\<close> fails with the length error exactly when the input has at
  most two bytes: an input of exactly two bytes is rejected, and an input of three
  bytes or more parses into the frame with the protocol number of its first two bytes
  (network order) and the rest, which is not empty, as payload. Correspondingly the
  length guard of the receive path drops exactly the frames of at most two bytes: such
  a frame is neither delivered nor answered, whatever its protocol number, while a
  longer frame passes the guard: it is delivered, without its two protocol bytes, to the
  channel registered for its protocol number, and it is answered with a protocol
  reject if its number is not well-known.
\<close>
theorem relay_length_guard:
  "(length buf \<le> 2 \<longrightarrow>
      PPPPacket_Parse buf = Inl (InvalidPPPPacketLength (length buf)) \<and> relay ps buf s = Inr s)
   \<and> (2 < length buf \<longrightarrow>
      PPPPacket_Parse buf
        = Inr \<lparr>Proto = push_bit 8 (ucast (buf ! 0)) OR ucast (buf ! 1),
               PPPPayload = StaticSerializer (drop 2 buf)\<rparr>
      \<and> drop 2 buf \<noteq> [])
   \<and> (2 < length buf \<and> Uint16 buf = Some pn \<and> pn \<in> set wellKnown
        \<and> relayChanList s pn = Some a \<and> chans s a = Some ch
        \<and> \<not> closed ch \<and> length (cbuf ch) < relayChanDepth \<longrightarrow>
      relay ps buf s = Inr (s\<lparr>chans := (chans s)(a \<mapsto> ch\<lparr>cbuf := cbuf ch @ [drop 2 buf]\<rparr>)\<rparr>))
   \<and> (2 < length buf \<and> Uint16 buf = Some pn \<and> pn \<notin> set wellKnown \<and> deliverable s pn
        \<and> ps \<lparr>PktProto = ProtoLCP, PktCode = CodeProtocolReject, ID = reqID s + 1,
                PktPayload = take 2 buf @ buf\<rparr> = Some body
        \<and> \<not> closed (sendChan s) \<and> length (cbuf (sendChan s)) < sendCHanDepth \<longrightarrow>
      (\<exists>s'. relay ps buf s = Inr s'
            \<and> cbuf (sendChan s') = cbuf (sendChan s) @ [PutUint16 ProtoLCP @ body]
            \<and> (\<forall>a ch. relayChanList s pn = Some a \<and> chans s a = Some ch \<longrightarrow>
                  chans s' a = Some (ch\<lparr>cbuf := cbuf ch @ [drop 2 buf]\<rparr>))))"
proof (intro conjI impI)
  assume "2 < length buf"
  then obtain x y z rest where "buf = x # y # z # rest"
    by (cases buf; cases "tl buf"; cases "tl (tl buf)") auto
  then show "PPPPacket_Parse buf
        = Inr \<lparr>Proto = push_bit 8 (ucast (buf ! 0)) OR ucast (buf ! 1),
               PPPPayload = StaticSerializer (drop 2 buf)\<rparr>"
    and "drop 2 buf \<noteq> []"
    by (simp_all add: PPPPacket_Parse_def)
next
  assume a: "2 < length buf \<and> Uint16 buf = Some pn \<and> pn \<in> set wellKnown
        \<and> relayChanList s pn = Some a \<and> chans s a = Some ch
        \<and> \<not> closed ch \<and> length (cbuf ch) < relayChanDepth"
  let ?s1 = "s\<lparr>chans := (chans s)(a \<mapsto> ch\<lparr>cbuf := cbuf ch @ [drop 2 buf]\<rparr>)\<rparr>"
  from a have "relay ps buf s = sendProtocolRejct ps buf ?s1"
    by (intro relay_registered [where pn = pn]) auto
  moreover from a have "sendProtocolRejct ps buf ?s1 = Inr ?s1"
    by (intro sendProtocolRejct_wellKnown [where pn = pn]) auto
  ultimately show "relay ps buf s = Inr ?s1" by simp
next
  assume a: "2 < length buf \<and> Uint16 buf = Some pn \<and> pn \<notin> set wellKnown \<and> deliverable s pn
        \<and> ps \<lparr>PktProto = ProtoLCP, PktCode = CodeProtocolReject, ID = reqID s + 1,
                PktPayload = take 2 buf @ buf\<rparr> = Some body
        \<and> \<not> closed (sendChan s) \<and> length (cbuf (sendChan s)) < sendCHanDepth"
  show "\<exists>s'. relay ps buf s = Inr s'
            \<and> cbuf (sendChan s') = cbuf (sendChan s) @ [PutUint16 ProtoLCP @ body]
            \<and> (\<forall>a ch. relayChanList s pn = Some a \<and> chans s a = Some ch \<longrightarrow>
                  chans s' a = Some (ch\<lparr>cbuf := cbuf ch @ [drop 2 buf]\<rparr>))"
  proof (cases "relayChanList s pn")
    case None
    with a have "relay ps buf s = sendProtocolRejct ps buf s"
      by (intro relay_unregistered [where pn = pn]) auto
    moreover from a have "sendProtocolRejct ps buf s
           = Inr (s\<lparr>reqID := reqID s + 1,
                    sendChan := sendChan s\<lparr>cbuf := cbuf (sendChan s) @ [PutUint16 ProtoLCP @ body]\<rparr>\<rparr>)"
      by (intro sendProtocolRejct_unknown [where pn = pn]) auto
    ultimately show ?thesis using None by simp
  next
    case (Some a0)
    with a obtain ch0 where ch0: "chans s a0 = Some ch0" "\<not> closed ch0"
      "length (cbuf ch0) < relayChanDepth"
      by (auto simp: deliverable_def split: option.splits)
    let ?s1 = "s\<lparr>chans := (chans s)(a0 \<mapsto> ch0\<lparr>cbuf := cbuf ch0 @ [drop 2 buf]\<rparr>)\<rparr>"
    from a Some ch0 have "relay ps buf s = sendProtocolRejct ps buf ?s1"
      by (intro relay_registered [where pn = pn]) auto
    moreover from a have "sendProtocolRejct ps buf ?s1
           = Inr (?s1\<lparr>reqID := reqID ?s1 + 1,
                     sendChan := sendChan ?s1\<lparr>cbuf := cbuf (sendChan ?s1) @ [PutUint16 ProtoLCP @ body]\<rparr>\<rparr>)"
      by (intro sendProtocolRejct_unknown [where pn = pn]) auto
    ultimately show ?thesis using Some ch0 by simp
  qed
qed (simp_all add: PPPPacket_Parse_def relay_def)

text \<open>
  Frames of two, three and four bytes on a multiplexer with IPv4 registered: an IPv4
  frame without payload, one with payload, and a frame of protocol 0x00FF.
\<close>
theorem relay_length_guard_witness:
  "PPPPacket_Parse [0x00, 0x21] = Inl (InvalidPPPPacketLength 2)
   \<and> relay lcp_wire [0x00, 0x21] ppp_ipv4 = Inr ppp_ipv4
   \<and> PPPPacket_Parse [0x00, 0x21, 0x45] = Inr \<lparr>Proto = 0x0021, PPPPayload = StaticSerializer [0x45]\<rparr>
   \<and> relay lcp_wire [0x00, 0x21, 0x45] ppp_ipv4
       = Inr (ppp_ipv4\<lparr>chans := (chans ppp_ipv4)(0 \<mapsto> \<lparr>cbuf = [[0x45]], closed = False\<rparr>)\<rparr>)
   \<and> (\<exists>s'. relay lcp_wire [0x00, 0xFF, 1, 2] ppp_ipv4 = Inr s'
         \<and> cbuf (sendChan s') = [[0xC0, 0x21, 8, 1, 0, 10, 0x00, 0xFF, 0x00, 0xFF, 1, 2]])"
proof -
  have u: "Uint16 [0x00, 0x21, 0x45] = Some 0x0021" "(0x0021 :: 16 word) \<in> set wellKnown"
    "Uint16 [0x00, 0xFF, 1, 2] = Some 0x00FF" "(0x00FF :: 16 word) \<notin> set wellKnown"
    by (simp_all add: wellKnown_def ProtoLCP_def ProtoPAP_def ProtoCHAP_def ProtoIPCP_def
        ProtoIPv6CP_def ProtoIPv4_def ProtoIPv6_def)
  have r: "relayChanList ppp_ipv4 0x0021 = Some 0" "chans ppp_ipv4 0 = Some make_chan"
    "\<not> closed make_chan" "length (cbuf make_chan) < relayChanDepth"
    "make_chan\<lparr>cbuf := cbuf make_chan @ [drop 2 [0x00, 0x21, 0x45]]\<rparr> = \<lparr>cbuf = [[0x45]], closed = False\<rparr>"
    by (simp_all add: ppp_ipv4_def Register_def NewPPP_def ProtoIPv4_def make_chan_def
        relayChanDepth_def Let_def)
  have d: "deliverable ppp_ipv4 0x00FF" "\<not> closed (sendChan ppp_ipv4)"
    "length (cbuf (sendChan ppp_ipv4)) < sendCHanDepth" "cbuf (sendChan ppp_ipv4) = []"
    "reqID ppp_ipv4 = 0"
    by (simp_all add: deliverable_def ppp_ipv4_def Register_def NewPPP_def ProtoIPv4_def
        make_chan_def sendCHanDepth_def Let_def)
  have s: "lcp_wire \<lparr>PktProto = ProtoLCP, PktCode = CodeProtocolReject, ID = reqID ppp_ipv4 + 1,
              PktPayload = take 2 [0x00, 0xFF, 1, 2] @ [0x00, 0xFF, 1, 2]\<rparr>
            = Some [8, 1, 0, 10, 0x00, 0xFF, 0x00, 0xFF, 1, 2]"
    by (simp add: lcp_wire_def CodeProtocolReject_def d PutUint16_def)
  have p: "PutUint16 ProtoLCP = [0xC0, 0x21]"
    by (simp add: PutUint16_def ProtoLCP_def)
  from relay_length_guard [where buf = "[0x00, 0x21]" and ps = lcp_wire and s = ppp_ipv4]
    relay_length_guard [where buf = "[0x00, 0x21, 0x45]" and ps = lcp_wire and s = ppp_ipv4
        and pn = "0x0021" and a = 0 and ch = make_chan]
    relay_length_guard [where buf = "[0x00, 0xFF, 1, 2]" and ps = lcp_wire and s = ppp_ipv4
        and pn = "0x00FF" and body = "[8, 1, 0, 10, 0x00, 0xFF, 0x00, 0xFF, 1, 2]"]
    u r d s p
  show ?thesis by auto
qed

text \<open>
  Claim C10. \<^verbatim>\<open>UnRegister\<close> of a protocol number that has no mapping in the registry
  closes the nil channel and panics: so it does on a new multiplexer, and on the state
  a successful \<^verbatim>\<open>UnRegister\<close> of the same number leaves. After \<^verbatim>\<open>Register\<close> of the number it
  returns, with the mapping removed.
\<close>
theorem UnRegister_unregistered:
  "(relayChanList s p = None \<longrightarrow> UnRegister p s = Inl PanicCloseOfNilChannel)
   \<and> UnRegister p NewPPP = Inl PanicCloseOfNilChannel
   \<and> (\<forall>s'. UnRegister p s = Inr s' \<longrightarrow> UnRegister p s' = Inl PanicCloseOfNilChannel)
   \<and> (\<exists>s'. UnRegister p (snd (Register p s)) = Inr s' \<and> relayChanList s' p = None)"
  by (auto simp: UnRegister_def close_chan_def NewPPP_def Register_def make_chan_def Let_def
      split: option.splits sum.splits if_splits)

text \<open>On a new multiplexer, and after registering and unregistering IPv4.\<close>
theorem UnRegister_unregistered_witness:
  "relayChanList NewPPP ProtoIPv4 = None
   \<and> UnRegister ProtoIPv4 NewPPP = Inl PanicCloseOfNilChannel
   \<and> (\<exists>s'. UnRegister ProtoIPv4 (snd (Register ProtoIPv4 NewPPP)) = Inr s'
          \<and> UnRegister ProtoIPv4 s' = Inl PanicCloseOfNilChannel)"
proof -
  have n: "relayChanList NewPPP ProtoIPv4 = None" by (simp add: NewPPP_def)
  from UnRegister_unregistered [of NewPPP ProtoIPv4]
    UnRegister_unregistered [of "snd (Register ProtoIPv4 NewPPP)" ProtoIPv4] n
  show ?thesis by auto
qed

text \<open>
  Claim C4. For a received frame of more than two bytes whose protocol number is none
  of LCP, PAP, CHAP, IPCP, IPv6CP, IPv4, IPv6, \<^verbatim>\<open>relay\<close> submits to the shared send channel
  the PPP frame of protocol LCP that carries a Protocol-Reject packet with the request id
  incremented by one and, as payload, the two protocol-number bytes followed by the
  whole received frame (provided the delivery to a registered channel returns, the
  packet serializes and the send channel has room). For the listed protocol numbers
  nothing is submitted and the request id is unchanged.
\<close>
theorem relay_protocol_reject:
  "(2 < length buf \<and> Uint16 buf = Some pn \<and> pn \<notin> set wellKnown \<and> deliverable s pn
      \<and> ps \<lparr>PktProto = ProtoLCP, PktCode = CodeProtocolReject, ID = reqID s + 1,
              PktPayload = take 2 buf @ buf\<rparr> = Some body
      \<and> \<not> closed (sendChan s) \<and> length (cbuf (sendChan s)) < sendCHanDepth \<longrightarrow>
      (\<exists>s'. relay ps buf s = Inr s'
            \<and> reqID s' = reqID s + 1
            \<and> cbuf (sendChan s') = cbuf (sendChan s) @ [PutUint16 ProtoLCP @ body]))
   \<and> (2 < length buf \<and> Uint16 buf = Some pn \<and> pn \<in> set wellKnown \<and> deliverable s pn \<longrightarrow>
      (\<exists>s'. relay ps buf s = Inr s' \<and> sendChan s' = sendChan s \<and> reqID s' = reqID s))"
proof (intro conjI impI)
  assume a: "2 < length buf \<and> Uint16 buf = Some pn \<and> pn \<notin> set wellKnown \<and> deliverable s pn
      \<and> ps \<lparr>PktProto = ProtoLCP, PktCode = CodeProtocolReject, ID = reqID s + 1,
              PktPayload = take 2 buf @ buf\<rparr> = Some body
      \<and> \<not> closed (sendChan s) \<and> length (cbuf (sendChan s)) < sendCHanDepth"
  then obtain s1 where s1: "relay ps buf s = sendProtocolRejct ps buf s1"
    "sendChan s1 = sendChan s" "reqID s1 = reqID s"
    using relay_delivers by blast
  from a s1 have "sendProtocolRejct ps buf s1
           = Inr (s1\<lparr>reqID := reqID s1 + 1,
                     sendChan := sendChan s1\<lparr>cbuf := cbuf (sendChan s1) @ [PutUint16 ProtoLCP @ body]\<rparr>\<rparr>)"
    by (intro sendProtocolRejct_unknown [where pn = pn]) auto
  with s1 show "\<exists>s'. relay ps buf s = Inr s'
            \<and> reqID s' = reqID s + 1
            \<and> cbuf (sendChan s') = cbuf (sendChan s) @ [PutUint16 ProtoLCP @ body]"
    by simp
next
  assume a: "2 < length buf \<and> Uint16 buf = Some pn \<and> pn \<in> set wellKnown \<and> deliverable s pn"
  then obtain s1 where s1: "relay ps buf s = sendProtocolRejct ps buf s1"
    "sendChan s1 = sendChan s" "reqID s1 = reqID s"
    using relay_delivers by blast
  from a have "sendProtocolRejct ps buf s1 = Inr s1"
    by (intro sendProtocolRejct_wellKnown [where pn = pn]) auto
  with s1 show "\<exists>s'. relay ps buf s = Inr s' \<and> sendChan s' = sendChan s \<and> reqID s' = reqID s"
    by simp
qed

text \<open>A frame of protocol 0x00FF, and an LCP frame, on a new multiplexer.\<close>
theorem relay_protocol_reject_witness:
  "(\<exists>s'. relay lcp_wire [0x00, 0xFF, 1, 2] NewPPP = Inr s'
         \<and> reqID s' = 1
         \<and> cbuf (sendChan s') = [[0xC0, 0x21, 8, 1, 0, 10, 0x00, 0xFF, 0x00, 0xFF, 1, 2]])
   \<and> (\<exists>s'. relay lcp_wire [0xC0, 0x21, 1] NewPPP = Inr s'
         \<and> sendChan s' = sendChan NewPPP \<and> reqID s' = reqID NewPPP)"
proof -
  have u: "Uint16 [0x00, 0xFF, 1, 2] = Some 0x00FF" "(0x00FF :: 16 word) \<notin> set wellKnown"
    "Uint16 [0xC0, 0x21, 1] = Some 0xC021" "(0xC021 :: 16 word) \<in> set wellKnown"
    by (simp_all add: wellKnown_def ProtoLCP_def ProtoPAP_def ProtoCHAP_def ProtoIPCP_def
        ProtoIPv6CP_def ProtoIPv4_def ProtoIPv6_def)
  have d: "deliverable NewPPP 0x00FF" "deliverable NewPPP 0xC021"
    "\<not> closed (sendChan NewPPP)" "length (cbuf (sendChan NewPPP)) < sendCHanDepth"
    "cbuf (sendChan NewPPP) = []" "reqID NewPPP = 0"
    by (simp_all add: deliverable_def NewPPP_def make_chan_def sendCHanDepth_def)
  have s: "lcp_wire \<lparr>PktProto = ProtoLCP, PktCode = CodeProtocolReject, ID = reqID NewPPP + 1,
              PktPayload = take 2 [0x00, 0xFF, 1, 2] @ [0x00, 0xFF, 1, 2]\<rparr>
            = Some [8, 1, 0, 10, 0x00, 0xFF, 0x00, 0xFF, 1, 2]"
    by (simp add: lcp_wire_def CodeProtocolReject_def NewPPP_def PutUint16_def)
  have p: "PutUint16 ProtoLCP = [0xC0, 0x21]"
    by (simp add: PutUint16_def ProtoLCP_def)
  from relay_protocol_reject [where buf = "[0x00, 0xFF, 1, 2]" and pn = "0x00FF" and s = NewPPP
        and ps = lcp_wire and body = "[8, 1, 0, 10, 0x00, 0xFF, 0x00, 0xFF, 1, 2]"]
    relay_protocol_reject [where buf = "[0xC0, 0x21, 1]" and pn = "0xC021" and s = NewPPP
        and ps = lcp_wire and body = "[]"]
    u d s p
  show ?thesis by simp
qed

end
